theory Spec2Isabelle
  imports Main "HOL-Library.Word" "HOL-Library.Multiset"
begin

unbundle bit_operations_syntax

section \<open>Values shared by the whole program\<close>

text \<open>
  A Go \<open>error\<close> value is modelled by its message. A call that returns \<open>(value, err)\<close> is
  a pair; for calls whose value is a handle (a pointer or an interface) the model keeps
  only whether the handle is non-nil, because the program never looks inside one.
  \<open>os.FileMode\<close> is a \<open>uint32\<close>; octal \<open>0600\<close> is \<open>0x180\<close>.
\<close>

datatype error = Error string

type_synonym handle = bool

type_synonym FileMode = "32 word"

definition perm_0600 :: FileMode where
  "perm_0600 = 0x180"

definition perm_0644 :: FileMode where
  "perm_0644 = 0x1A4"

text \<open>
  How the process ends: \<open>os.Exit(n)\<close>, a return from \<open>main\<close> (status 0), or a run-time
  panic, which the Go runtime turns into exit status 2.
\<close>

datatype outcome = Exit nat | Panic

section \<open>fmt.Sprintf on string operands\<close>

text \<open>
  The three format strings of the program use the verb \<open>%s\<close> only, always with string
  operands. \<open>Sprintf\<close> scans the format from left to right, copies ordinary bytes, and
  replaces each \<open>%s\<close> by the next operand, which is not scanned again. As in Go, a
  \<open>%s\<close> without operand prints \<open>%!s(MISSING)\<close>, \<open>%%\<close> prints a percent sign, a lone
  \<open>%\<close> at the end prints \<open>%!(NOVERB)\<close>, and unused operands are reported at the end.
  Other verbs, flags and widths do not occur in the program; the model copies such a
  sequence unchanged and says nothing about what Go prints there.
\<close>

fun extra_operands :: "string list \<Rightarrow> string" where
  "extra_operands [] = []"
| "extra_operands [a] = ''string='' @ a"
| "extra_operands (a # b # bs) = ''string='' @ a @ '', '' @ extra_operands (b # bs)"

fun Sprintf :: "string \<Rightarrow> string list \<Rightarrow> string" where
  "Sprintf [] args = (if args = [] then [] else ''%!(EXTRA '' @ extra_operands args @ '')'')"
| "Sprintf (c # cs) args =
     (if c = CHR ''%'' then
        (case cs of
           [] \<Rightarrow> ''%!(NOVERB)'' @ Sprintf [] args
         | d # ds \<Rightarrow>
             if d = CHR ''s'' then
               (case args of
                  [] \<Rightarrow> ''%!s(MISSING)'' @ Sprintf ds []
                | a # as \<Rightarrow> a @ Sprintf ds as)
             else if d = CHR ''%'' then CHR ''%'' # Sprintf ds args
             else c # d # Sprintf ds args)
      else c # Sprintf cs args)"

section \<open>What the program does to the outside world\<close>

text \<open>
  The program is observed through the calls it makes, in order: calls of the logger
  (level and message; the attributes are left out), HTTP requests, browser commands,
  sleeps, and through the files it leaves behind. \<open>http.Header\<close> maps a canonical
  header name to its list of values.
\<close>

datatype level = LevelDebug | LevelInfo | LevelWarn | LevelError

type_synonym Header = "string \<rightharpoonup> string list"

datatype event =
    LogCall level string
  | HttpGet string
  | HttpPost string Header string
  | PageGoto string
  | ContextCookies
  | BrowserClose
  | TimeSleep nat

record regular_file =
  content :: string
  mode :: FileMode

record world =
  trace :: "event list"
  files :: "string \<rightharpoonup> regular_file"

definition emit :: "event \<Rightarrow> world \<Rightarrow> world" where
  "emit e w = w\<lparr>trace := trace w @ [e]\<rparr>"

definition slog :: "level \<Rightarrow> string \<Rightarrow> world \<Rightarrow> world" where
  "slog l msg w = emit (LogCall l msg) w"

text \<open>
  The recurring statement \<open>if err != nil { log.Error(msg, "err", err) }\<close>, which logs and
  goes on.
\<close>

definition log_if_error :: "error option \<Rightarrow> string \<Rightarrow> world \<Rightarrow> world" where
  "log_if_error err msg w = (if err \<noteq> None then slog LevelError msg w else w)"

text \<open>The POST requests of a trace: target URL, header and body of each.\<close>

fun posts :: "event list \<Rightarrow> (string \<times> Header \<times> string) list" where
  "posts [] = []"
| "posts (HttpPost u h b # es) = (u, h, b) # posts es"
| "posts (e # es) = posts es"

text \<open>The messages logged at level Error, in order.\<close>

fun error_logs :: "event list \<Rightarrow> string list" where
  "error_logs [] = []"
| "error_logs (LogCall LevelError msg # es) = msg # error_logs es"
| "error_logs (e # es) = error_logs es"

section \<open>Data of the protocol\<close>

text \<open>
  The two response types live in the package \<open>config\<close>; \<open>main.go\<close> reads the fields
  below. Of a \<open>playwright.NetworkCookie\<close> the program reads \<open>Name\<close> and \<open>Value\<close>.
\<close>

record Opaque =
  Value :: string

record InitializationResponse =
  LoginURL :: string
  LoginFinalURL :: string
  TokenCookieName :: string
  Opaque :: Opaque

record FinalizationResponse =
  Cookie :: string
  Fingerprint :: string

record NetworkCookie =
  Name :: string
  Value :: string

text \<open>
  An \<open>http.Response\<close>: the status code, the URL of the request that produced it (after
  redirects), and what \<open>io.ReadAll\<close> on its body yields: the bytes read and the read
  error, if any.
\<close>

record Response =
  StatusCode :: nat
  Request_URL :: string
  Body :: string
  Body_err :: "error option"

section \<open>The environment\<close>

text \<open>
  Everything the program calls but does not define is a parameter: the command line, the
  browser driver, the HTTP client, the XML decoder for the two response types, and the
  faults of the file system. \<open>context_Cookies env i\<close> is the result of the \<open>i\<close>-th call of
  \<open>context.Cookies()\<close>.
\<close>

datatype write_fault = OpenFails error | WriteFails nat error

record env =
  arg_server :: string
  arg_config :: string
  playwright_Run :: "handle \<times> error option"
  Firefox_Launch :: "handle \<times> error option"
  browser_NewContext :: "handle \<times> error option"
  context_NewPage :: "handle \<times> error option"
  context_Cookies :: "nat \<Rightarrow> NetworkCookie list \<times> error option"
  http_Get :: "string \<Rightarrow> error + Response"
  http_NewRequest :: "string \<Rightarrow> error option"
  client_Do :: "string \<Rightarrow> Header \<Rightarrow> string \<Rightarrow> error + Response"
  Unmarshal_init :: "string \<Rightarrow> error + InitializationResponse"
  Unmarshal_final :: "string \<Rightarrow> error + FinalizationResponse"
  umask :: FileMode
  os_fault :: "string \<Rightarrow> write_fault option"

section \<open>net/http: header names\<close>

text \<open>
  \<open>Header.Set\<close> stores the value under \<open>textproto.CanonicalMIMEHeaderKey\<close> of the name:
  if every byte of the name is a token character, the first letter and each letter after
  a hyphen are made upper case and all other letters lower case; otherwise the name is
  left as it is. \<open>Header.Get\<close> canonicalises the name it looks up in the same way and
  returns the first value, or the empty string.
\<close>

definition is_lower :: "char \<Rightarrow> bool" where
  "is_lower c = (97 \<le> (of_char c :: nat) \<and> (of_char c :: nat) \<le> 122)"

definition is_upper :: "char \<Rightarrow> bool" where
  "is_upper c = (65 \<le> (of_char c :: nat) \<and> (of_char c :: nat) \<le> 90)"

definition is_digit :: "char \<Rightarrow> bool" where
  "is_digit c = (48 \<le> (of_char c :: nat) \<and> (of_char c :: nat) \<le> 57)"

definition validHeaderFieldByte :: "char \<Rightarrow> bool" where
  "validHeaderFieldByte c =
     (is_lower c \<or> is_upper c \<or> is_digit c \<or>
      c \<in> set [CHR 0x21, CHR 0x23, CHR 0x24, CHR 0x25, CHR 0x26, CHR 0x27, CHR 0x2A,
                 CHR 0x2B, CHR 0x2D, CHR 0x2E, CHR 0x5E, CHR 0x5F, CHR 0x60, CHR 0x7C,
                 CHR 0x7E])"

fun canonical :: "bool \<Rightarrow> string \<Rightarrow> string" where
  "canonical upper [] = []"
| "canonical upper (c # cs) =
     (let c' = (if upper \<and> is_lower c then char_of ((of_char c :: nat) - 32)
                else if \<not> upper \<and> is_upper c then char_of ((of_char c :: nat) + 32)
                else c)
      in c' # canonical (c' = CHR ''-'') cs)"

definition CanonicalMIMEHeaderKey :: "string \<Rightarrow> string" where
  "CanonicalMIMEHeaderKey s = (if list_all validHeaderFieldByte s then canonical True s else s)"

definition Header_Set :: "Header \<Rightarrow> string \<Rightarrow> string \<Rightarrow> Header" where
  "Header_Set h key v = h(CanonicalMIMEHeaderKey key \<mapsto> [v])"

definition Header_Get :: "Header \<Rightarrow> string \<Rightarrow> string" where
  "Header_Get h key =
     (case h (CanonicalMIMEHeaderKey key) of
        None \<Rightarrow> []
      | Some [] \<Rightarrow> []
      | Some (v # vs) \<Rightarrow> v)"

section \<open>makePostReq\<close>

text \<open>
  The Go map literal \<open>headers\<close>, in the order of the source. A \<open>range\<close> over a Go map
  visits the entries in an unspecified order; \<open>request_header_of\<close> takes the order as
  its argument.
\<close>

definition headers :: "(string \<times> string) list" where
  \<open>headers =
     [(''User-Agent'', ''AnyConnect Linux_64 4.7.00136''),
      (''Accept'', ''*/*''),
      (''Accept-Encoding'', ''identity''),
      (''X-Transcend-Version'', ''1''),
      (''X-Aggregate-Auth'', ''1''),
      (''X-Support-HTTP-Auth'', ''true''),
      (''Content-Type'', ''application/x-www-form-urlencoded'')]\<close>

definition request_header_of :: "(string \<times> string) list \<Rightarrow> Header" where
  "request_header_of kvs = fold (\<lambda>(k, v) h. Header_Set h k v) kvs Map.empty"

definition request_header :: Header where
  "request_header = request_header_of headers"

text \<open>
  \<open>makePostReq\<close> builds the request (a URL that does not parse ends the process), sets
  the headers, sends it, and returns what \<open>io.ReadAll\<close> read of the body. The status
  code is not read and the error of \<open>io.ReadAll\<close> is assigned to \<open>_\<close>.
\<close>

definition makePostReq :: "env \<Rightarrow> string \<Rightarrow> string \<Rightarrow> world \<Rightarrow> (outcome + string) \<times> world" where
  "makePostReq env xmlPayload server w =
     (case http_NewRequest env server of
        Some err \<Rightarrow> (Inl (Exit 1), slog LevelError ''Failed to create http request'' w)
      | None \<Rightarrow>
          let w1 = emit (HttpPost server request_header xmlPayload) w in
          (case client_Do env server request_header xmlPayload of
             Inl err \<Rightarrow> (Inl (Exit 1), slog LevelError ''failed to POST request to the server'' w1)
           | Inr resp \<Rightarrow>
               let body = Body resp;
                   w2 = slog LevelInfo ''successfullly received response from server'' w1;
                   w3 = slog LevelDebug ''received response'' w2
               in (Inr body, w3)))"

section \<open>initializationStage\<close>

definition init_format :: string where
  \<open>init_format =
     ''\<newline>'' @
     ''    <config-auth client="vpn" type="init" aggregate-auth-version="2">\<newline>'' @
     ''      <version who="vpn">4.7.00136</version>\<newline>'' @
     ''      <device-id>linux-64</device-id>\<newline>'' @
     ''      <group-select></group-select>\<newline>'' @
     [CHR 0x09, CHR 0x09, CHR 0x09] @ ''<group-access>%s</group-access>\<newline>'' @
     ''      <capabilities>\<newline>'' @
     ''        <auth-method>single-sign-on-v2</auth-method>\<newline>'' @
     ''      </capabilities>\<newline>'' @
     ''    </config-auth>\<newline>'' @
     [CHR 0x09]\<close>

definition initializationStage ::
  "env \<Rightarrow> string \<Rightarrow> world \<Rightarrow> (outcome + InitializationResponse \<times> string) \<times> world" where
  "initializationStage env url w =
     (let w1 = emit (HttpGet url) w in
      case http_Get env url of
        Inl err \<Rightarrow> (Inl (Exit 1), slog LevelError ''Failed to get url'' w1)
      | Inr resp \<Rightarrow>
          let targetVPNServer = Request_URL resp;
              xmlPayload = Sprintf init_format [targetVPNServer];
              w2 = slog LevelDebug ''configuring VPN request'' w1
          in (case makePostReq env xmlPayload targetVPNServer w2 of
                (Inl out, w3) \<Rightarrow> (Inl out, w3)
              | (Inr body, w3) \<Rightarrow>
                  let w4 = slog LevelDebug ''received response from server'' w3 in
                  (case Unmarshal_init env body of
                     Inl err \<Rightarrow>
                       (Inl (Exit 1),
                        slog LevelError ''failed to unmarshal the received response body to XML'' w4)
                   | Inr result \<Rightarrow>
                       (Inr (result, targetVPNServer),
                        slog LevelInfo ''unmarshalled init response'' w4))))"

section \<open>finalizationStage\<close>

definition final_format :: string where
  \<open>final_format =
     ''\<newline>'' @
     ''    <config-auth client="vpn" type="auth-reply" aggregate-auth-version="2">\<newline>'' @
     ''      <version who="vpn">4.7.00136</version>\<newline>'' @
     ''      <device-id>linux-64</device-id>\<newline>'' @
     ''      <session-token/>\<newline>'' @
     ''      <session-id/>\<newline>'' @
     ''      <opaque is-for="sg">%s</opaque>\<newline>'' @
     ''      <auth>\<newline>'' @
     ''        <sso-token>%s</sso-token>\<newline>'' @
     ''      </auth>\<newline>'' @
     ''      </config-auth>\<newline>'' @
     ''  ''\<close>

definition finalizationStage ::
  "env \<Rightarrow> string \<Rightarrow> string \<Rightarrow> string \<Rightarrow> world \<Rightarrow> (outcome + FinalizationResponse) \<times> world" where
  "finalizationStage env vpnServer token configHash w =
     (let xmlPayload = Sprintf final_format [configHash, token] in
      case makePostReq env xmlPayload vpnServer w of
        (Inl out, w1) \<Rightarrow> (Inl out, w1)
      | (Inr body, w1) \<Rightarrow>
          let w2 = slog LevelDebug ''received response from server'' w1 in
          (case Unmarshal_final env body of
             Inl err \<Rightarrow>
               (Inl (Exit 1),
                slog LevelError ''failed to unmarshal the received response body to XML'' w2)
           | Inr result \<Rightarrow>
               (Inr result, slog LevelDebug ''unmarshalled final response'' w2)))"

section \<open>writeOCConfig\<close>

text \<open>
  \<open>os.WriteFile(name, data, perm)\<close> as the Go documentation describes it: the file is
  opened for writing, created with permissions \<open>perm\<close> (before umask) if it does not
  exist and truncated otherwise, without changing permissions; then the data is written.
  An open that fails leaves the file system as it was; a write that fails after \<open>n\<close>
  bytes leaves those bytes in the file.
\<close>

definition os_WriteFile ::
  "env \<Rightarrow> string \<Rightarrow> string \<Rightarrow> FileMode \<Rightarrow> (string \<rightharpoonup> regular_file) \<Rightarrow> error option \<times> (string \<rightharpoonup> regular_file)" where
  "os_WriteFile env name data perm fs =
     (case os_fault env name of
        Some (OpenFails e) \<Rightarrow> (Some e, fs)
      | fault \<Rightarrow>
          let opened = (case fs name of
                          None \<Rightarrow> \<lparr>content = [], mode = perm AND NOT (umask env)\<rparr>
                        | Some f \<Rightarrow> f\<lparr>content := []\<rparr>)
          in (case fault of
                Some (WriteFails n e) \<Rightarrow> (Some e, fs(name \<mapsto> opened\<lparr>content := take n data\<rparr>))
              | _ \<Rightarrow> (None, fs(name \<mapsto> opened\<lparr>content := data\<rparr>))))"

definition writeOCConfig ::
  "env \<Rightarrow> string \<Rightarrow> string \<Rightarrow> string \<Rightarrow> string \<Rightarrow> world \<Rightarrow> (outcome + unit) \<times> world" where
  "writeOCConfig env cookie fingerprint server ocFile w =
     (let content = Sprintf ''cookie=%s\<newline>servercert=%s\<newline># host=%s\<newline>''
                      [cookie, fingerprint, server]
      in case os_WriteFile env ocFile content perm_0600 (files w) of
           (Some err, fs) \<Rightarrow>
             (Inl (Exit 1),
              slog LevelError ''failed to write authentication details to file'' (w\<lparr>files := fs\<rparr>))
         | (None, fs) \<Rightarrow>
             (Inr (),
              slog LevelInfo ''successfully written authentication details to file''
                (w\<lparr>files := fs\<rparr>)))"

section \<open>main\<close>

text \<open>
  One round of the polling loop: read the cookies of the browser context, log an error
  of that call, take the first cookie whose name is the token cookie's name; with a
  cookie found close the browser and leave the loop, otherwise sleep and go round again.
  \<open>time.Millisecond\<close> is a number of nanoseconds.
\<close>

definition Millisecond :: nat where
  "Millisecond = 1000000"

definition poll_round :: "env \<Rightarrow> string \<Rightarrow> nat \<Rightarrow> world \<Rightarrow> NetworkCookie option \<times> world" where
  "poll_round env name i w =
     (case context_Cookies env i of
        (cookies, err) \<Rightarrow>
          let w1 = emit ContextCookies w;
              w2 = log_if_error err ''could not get cookies from browser context'' w1
          in (case find (\<lambda>cookie. Name cookie = name) cookies of
                Some cookie \<Rightarrow>
                  let w3 = slog LevelInfo
                             ''received successful authentication token cookie from browser'' w2
                  in (Some cookie, emit BrowserClose w3)
              | None \<Rightarrow> (None, emit (TimeSleep (10 * Millisecond)) w2)))"

text \<open>The loop has no exit but the found cookie; a run that never leaves it is \<open>None\<close>.\<close>

partial_function (option) poll_loop ::
  "env \<Rightarrow> string \<Rightarrow> nat \<Rightarrow> world \<Rightarrow> (NetworkCookie \<times> world) option" where
  "poll_loop env name i w =
     (case poll_round env name i w of
        (Some cookie, w') \<Rightarrow> Some (cookie, w')
      | (None, w') \<Rightarrow> poll_loop env name (Suc i) w')"

text \<open>
  The events of the \<open>i\<close>-th round up to the search of the jar, and the events of the rounds
  \<open>i\<close> to \<open>n - 1\<close> when none of them finds the cookie: each reads the jar and sleeps.
\<close>

definition round_events :: "env \<Rightarrow> nat \<Rightarrow> event list" where
  "round_events env i =
     ContextCookies #
     (if snd (context_Cookies env i) \<noteq> None
      then [LogCall LevelError ''could not get cookies from browser context'']
      else [])"

definition waiting :: "env \<Rightarrow> nat \<Rightarrow> nat \<Rightarrow> event list" where
  "waiting env i n =
     concat (map (\<lambda>j. round_events env j @ [TimeSleep (10 * Millisecond)]) [i..<n])"

definition token_cookie :: "env \<Rightarrow> string \<Rightarrow> nat \<Rightarrow> NetworkCookie option" where
  "token_cookie env name i = find (\<lambda>cookie. Name cookie = name) (fst (context_Cookies env i))"

text \<open>
  \<open>main\<close>. The four browser set-up calls log their error and go on; a nil handle panics
  where it is first used (\<open>pw.Firefox\<close>, \<open>browser.NewContext()\<close>, \<open>context.NewPage()\<close>,
  \<open>page.Goto\<close>). The results of \<open>page.Goto\<close> and \<open>browser.Close\<close> are not assigned.
  The result is \<open>None\<close> when the process never ends.
\<close>

definition main :: "env \<Rightarrow> world \<Rightarrow> (outcome \<times> world) option" where
  "main env w0 =
     (let w1 = slog LevelInfo ''Logger initialized'' w0;
          (pw, err1) = playwright_Run env;
          w2 = log_if_error err1 ''could not launch playwright'' w1
      in if \<not> pw then Some (Panic, w2) else
      let (browser, err2) = Firefox_Launch env;
          w3 = log_if_error err2 ''could not launch Firefox'' w2
      in if \<not> browser then Some (Panic, w3) else
      let (context, err3) = browser_NewContext env;
          w4 = log_if_error err3 ''could not create context'' w3
      in if \<not> context then Some (Panic, w4) else
      let (page, err4) = context_NewPage env;
          w5 = log_if_error err4 ''could not create page'' w4
      in (case initializationStage env (arg_server env) w5 of
            (Inl out, w6) \<Rightarrow> Some (out, w6)
          | (Inr (initResp, targetVPNServer), w6) \<Rightarrow>
              let w7 = slog LevelInfo
                   ''waiting to detect successful authentication token cookie on the browser'' w6
              in if \<not> page then Some (Panic, w7) else
              let w8 = emit (PageGoto (LoginURL initResp)) w7 in
              (case poll_loop env (TokenCookieName initResp) 0 w8 of
                 None \<Rightarrow> None
               | Some (tokenCookie, w9) \<Rightarrow>
                   (case finalizationStage env targetVPNServer (NetworkCookie.Value tokenCookie)
                           (Opaque.Value (Opaque initResp)) w9 of
                      (Inl out, w10) \<Rightarrow> Some (out, w10)
                    | (Inr finalResp, w10) \<Rightarrow>
                        let w11 = slog LevelInfo
                          ''received openconnect server fingerprint and connection cookie successfully''
                          w10
                        in (case writeOCConfig env (Cookie finalResp) (Fingerprint finalResp)
                                   targetVPNServer (arg_config env) w11 of
                              (Inl out, w12) \<Rightarrow> Some (out, w12)
                            | (Inr u, w12) \<Rightarrow> Some (Exit 0, w12))))))"

abbreviation (input) waiting_msg :: string where
  "waiting_msg \<equiv> ''waiting to detect successful authentication token cookie on the browser''"

abbreviation (input) received_msg :: string where
  "received_msg \<equiv>
     ''received openconnect server fingerprint and connection cookie successfully''"

text \<open>The world after the four set-up calls, when none of them panics.\<close>

definition setup_world :: "env \<Rightarrow> world \<Rightarrow> world" where
  "setup_world env w =
     log_if_error (snd (context_NewPage env)) ''could not create page''
       (log_if_error (snd (browser_NewContext env)) ''could not create context''
          (log_if_error (snd (Firefox_Launch env)) ''could not launch Firefox''
             (log_if_error (snd (playwright_Run env)) ''could not launch playwright''
                (slog LevelInfo ''Logger initialized'' w))))"

text \<open>What the four set-up calls log, in order.\<close>

definition setup_logs :: "env \<Rightarrow> event list" where
  "setup_logs env =
     (if snd (playwright_Run env) \<noteq> None
      then [LogCall LevelError ''could not launch playwright''] else []) @
     (if snd (Firefox_Launch env) \<noteq> None
      then [LogCall LevelError ''could not launch Firefox''] else []) @
     (if snd (browser_NewContext env) \<noteq> None
      then [LogCall LevelError ''could not create context''] else []) @
     (if snd (context_NewPage env) \<noteq> None
      then [LogCall LevelError ''could not create page''] else [])"

text \<open>The program started in a fresh process, on the file system \<open>fs\<close>.\<close>

definition run :: "env \<Rightarrow> (string \<rightharpoonup> regular_file) \<Rightarrow> (outcome \<times> world) option" where
  "run env fs = main env \<lparr>trace = [], files = fs\<rparr>"

abbreviation (input) received_cookie_msg :: string where
  "received_cookie_msg \<equiv> ''received successful authentication token cookie from browser''"

text \<open>The durations of the sleeps of a trace, in order.\<close>

fun sleeps :: "event list \<Rightarrow> nat list" where
  "sleeps [] = []"
| "sleeps (TimeSleep d # es) = d # sleeps es"
| "sleeps (e # es) = sleeps es"

text \<open>The two POST requests of a run, as \<open>posts\<close> lists them.\<close>

definition init_post :: "string \<Rightarrow> string \<times> Header \<times> string" where
  "init_post t = (t, request_header, Sprintf init_format [t])"

definition final_post :: "string \<Rightarrow> InitializationResponse \<Rightarrow> NetworkCookie \<Rightarrow> string \<times> Header \<times> string" where
  "final_post t ir c =
     (t, request_header, Sprintf final_format [Opaque.Value (Opaque ir), NetworkCookie.Value c])"

text \<open>The two lines that the init request and the auth-reply request have in common.\<close>

definition version_and_device_id :: string where
  \<open>version_and_device_id =
     ''      <version who="vpn">4.7.00136</version>\<newline>'' @
     ''      <device-id>linux-64</device-id>\<newline>''\<close>

text \<open>The same environment with another status code and read error on every POST response.\<close>

definition with_post_status :: "nat \<Rightarrow> error option \<Rightarrow> env \<Rightarrow> env" where
  "with_post_status s e env =
     env\<lparr>client_Do := \<lambda>u h b. map_sum id (\<lambda>r. r\<lparr>StatusCode := s, Body_err := e\<rparr>)
                                   (client_Do env u h b)\<rparr>"

text \<open>
  The same environment with another status code, body and read error on every GET response.
\<close>

definition with_get_response :: "nat \<Rightarrow> string \<Rightarrow> error option \<Rightarrow> env \<Rightarrow> env" where
  "with_get_response s b e env =
     env\<lparr>http_Get := \<lambda>u. map_sum id (\<lambda>r. r\<lparr>StatusCode := s, Body := b, Body_err := e\<rparr>)
                             (http_Get env u)\<rparr>"

text \<open>
  The first \<open>n\<close> rounds of the loop, starting with round \<open>i\<close>: the cookie found in one of
  them, if any, and the world they leave behind.
\<close>

fun poll_rounds ::
  "env \<Rightarrow> string \<Rightarrow> nat \<Rightarrow> nat \<Rightarrow> world \<Rightarrow> NetworkCookie option \<times> world" where
  "poll_rounds env name 0 i w = (None, w)"
| "poll_rounds env name (Suc n) i w =
     (case poll_round env name i w of
        (Some cookie, w') \<Rightarrow> (Some cookie, w')
      | (None, w') \<Rightarrow> poll_rounds env name n (Suc i) w')"

section \<open>Concrete runs\<close>

text \<open>
  A run in which everything succeeds: the gateway redirects to \<open>vpn2\<close>, the first look at
  the cookie jar finds a decoy only, the second finds the decoy, then the token cookie,
  then a second cookie of the same name. The variants change one call each.
\<close>

definition decoy :: NetworkCookie where
  "decoy = \<lparr>Name = ''ssotoken2'', Value = ''decoy''\<rparr>"

definition sso :: NetworkCookie where
  "sso = \<lparr>Name = ''ssotoken'', Value = ''tok456''\<rparr>"

definition sso_late :: NetworkCookie where
  "sso_late = \<lparr>Name = ''ssotoken'', Value = ''later''\<rparr>"

definition env0 :: env where
  "env0 =
     \<lparr>arg_server = ''https://vpn.example.com'',
      arg_config = ''/tmp/oc.conf'',
      playwright_Run = (True, None),
      Firefox_Launch = (True, None),
      browser_NewContext = (True, None),
      context_NewPage = (True, None),
      context_Cookies = (\<lambda>i. if i = 0 then ([decoy], None) else ([decoy, sso, sso_late], None)),
      http_Get = (\<lambda>u. Inr \<lparr>StatusCode = 200, Request_URL = ''https://vpn2.example.com'',
                              Body = [], Body_err = None\<rparr>),
      http_NewRequest = (\<lambda>u. None),
      client_Do = (\<lambda>u h b. Inr \<lparr>StatusCode = 200, Request_URL = u, Body = ''<config-auth/>'',
                                  Body_err = None\<rparr>),
      Unmarshal_init = (\<lambda>b. Inr \<lparr>LoginURL = ''https://idp.example.com/login'',
                                    LoginFinalURL = [], TokenCookieName = ''ssotoken'',
                                    Opaque = \<lparr>Opaque.Value = ''abc123''\<rparr>\<rparr>),
      Unmarshal_final = (\<lambda>b. Inr \<lparr>Cookie = ''sesscookie'', Fingerprint = ''fp789''\<rparr>),
      umask = 0x12,
      os_fault = (\<lambda>p. None)\<rparr>"

definition w0 :: world where
  "w0 = \<lparr>trace = [], files = Map.empty\<rparr>"

text \<open>The output file exists already and is world-readable (mode 0644).\<close>

definition w_existing :: world where
  "w_existing =
     \<lparr>trace = [], files = [''/tmp/oc.conf'' \<mapsto> \<lparr>content = ''old content'', mode = perm_0644\<rparr>]\<rparr>"

text \<open>The first call of \<open>context.Cookies()\<close> fails, the second finds the token cookie.\<close>

definition env_cookie_error :: env where
  "env_cookie_error =
     env0\<lparr>context_Cookies :=
            (\<lambda>i. if i = 0 then ([], Some (Error ''target closed'')) else ([sso], None))\<rparr>"

text \<open>The page cannot be created: \<open>context.NewPage()\<close> returns nil and an error.\<close>

definition env_no_page :: env where
  "env_no_page = env0\<lparr>context_NewPage := (False, Some (Error ''could not create page''))\<rparr>"

text \<open>The token cookie never appears.\<close>

definition env_never :: env where
  "env_never = env0\<lparr>context_Cookies := (\<lambda>i. ([decoy], None))\<rparr>"

text \<open>The gateway answers 500 and the body breaks off while it is read.\<close>

definition env_500 :: env where
  "env_500 =
     env0\<lparr>client_Do :=
            (\<lambda>u h b. Inr \<lparr>StatusCode = 500, Request_URL = u, Body = ''<html>Inter'',
                           Body_err = Some (Error ''unexpected EOF'')\<rparr>)\<rparr>"


section \<open>Basic facts\<close>

subsection \<open>The three format strings\<close>

lemma Sprintf_config:
  "Sprintf ''cookie=%s\<newline>servercert=%s\<newline># host=%s\<newline>'' [a, b, c] =
     ''cookie='' @ a @ ''\<newline>servercert='' @ b @ ''\<newline># host='' @ c @ ''\<newline>''"
  by simp

lemma Sprintf_init:
  \<open>Sprintf init_format [u] =
     ''\<newline>'' @
     ''    <config-auth client="vpn" type="init" aggregate-auth-version="2">\<newline>'' @
     ''      <version who="vpn">4.7.00136</version>\<newline>'' @
     ''      <device-id>linux-64</device-id>\<newline>'' @
     ''      <group-select></group-select>\<newline>'' @
     [CHR 0x09, CHR 0x09, CHR 0x09] @ ''<group-access>'' @ u @ ''</group-access>\<newline>'' @
     ''      <capabilities>\<newline>'' @
     ''        <auth-method>single-sign-on-v2</auth-method>\<newline>'' @
     ''      </capabilities>\<newline>'' @
     ''    </config-auth>\<newline>'' @
     [CHR 0x09]\<close>
  by (simp add: init_format_def)

lemma Sprintf_final:
  \<open>Sprintf final_format [configHash, token] =
     ''\<newline>'' @
     ''    <config-auth client="vpn" type="auth-reply" aggregate-auth-version="2">\<newline>'' @
     ''      <version who="vpn">4.7.00136</version>\<newline>'' @
     ''      <device-id>linux-64</device-id>\<newline>'' @
     ''      <session-token/>\<newline>'' @
     ''      <session-id/>\<newline>'' @
     ''      <opaque is-for="sg">'' @ configHash @ ''</opaque>\<newline>'' @
     ''      <auth>\<newline>'' @
     ''        <sso-token>'' @ token @ ''</sso-token>\<newline>'' @
     ''      </auth>\<newline>'' @
     ''      </config-auth>\<newline>'' @
     ''  ''\<close>
  by (simp add: final_format_def)

subsection \<open>Traces\<close>

lemma trace_emit [simp]: "trace (emit e w) = trace w @ [e]"
  by (simp add: emit_def)

lemma files_emit [simp]: "files (emit e w) = files w"
  by (simp add: emit_def)

lemma trace_slog [simp]: "trace (slog l m w) = trace w @ [LogCall l m]"
  by (simp add: slog_def)

lemma files_slog [simp]: "files (slog l m w) = files w"
  by (simp add: slog_def)

lemma files_log_if_error [simp]: "files (log_if_error err m w) = files w"
  by (simp add: log_if_error_def)

lemma trace_log_if_error:
  "trace (log_if_error err m w) =
     trace w @ (if err \<noteq> None then [LogCall LevelError m] else [])"
  by (simp add: log_if_error_def)

lemma posts_append [simp]: "posts (xs @ ys) = posts xs @ posts ys"
  by (induction xs rule: posts.induct) simp_all

lemma error_logs_append [simp]: "error_logs (xs @ ys) = error_logs xs @ error_logs ys"
  by (induction xs rule: error_logs.induct) simp_all

subsection \<open>The gateway client\<close>

lemma makePostReq_Inr:
  assumes "makePostReq env p s w = (Inr body, w')"
  shows "\<exists>resp. http_NewRequest env s = None \<and> client_Do env s request_header p = Inr resp \<and>
           body = Body resp \<and> files w' = files w \<and>
           trace w' = trace w @
             [HttpPost s request_header p,
              LogCall LevelInfo ''successfullly received response from server'',
              LogCall LevelDebug ''received response'']"
  using assms
  by (auto simp: makePostReq_def Let_def split: option.splits sum.splits)

lemma makePostReq_Inl:
  assumes "makePostReq env p s w = (Inl out, w')"
  shows "out = Exit 1 \<and> files w' = files w \<and>
         (http_NewRequest env s \<noteq> None \<and>
            trace w' = trace w @ [LogCall LevelError ''Failed to create http request'']
          \<or> http_NewRequest env s = None \<and> (\<exists>e. client_Do env s request_header p = Inl e) \<and>
            trace w' = trace w @
              [HttpPost s request_header p,
               LogCall LevelError ''failed to POST request to the server''])"
  using assms
  by (auto simp: makePostReq_def Let_def split: option.splits sum.splits)

subsection \<open>The two stages\<close>

lemma initializationStage_Inr:
  assumes "initializationStage env url w = (Inr (ir, t), w')"
  shows "\<exists>resp resp2. http_Get env url = Inr resp \<and> t = Request_URL resp \<and>
           http_NewRequest env t = None \<and>
           client_Do env t request_header (Sprintf init_format [t]) = Inr resp2 \<and>
           Unmarshal_init env (Body resp2) = Inr ir \<and> files w' = files w \<and>
           trace w' = trace w @
             [HttpGet url,
              LogCall LevelDebug ''configuring VPN request'',
              HttpPost t request_header (Sprintf init_format [t]),
              LogCall LevelInfo ''successfullly received response from server'',
              LogCall LevelDebug ''received response'',
              LogCall LevelDebug ''received response from server'',
              LogCall LevelInfo ''unmarshalled init response'']"
  using assms
  by (auto simp: initializationStage_def Let_def split: sum.splits prod.splits
           dest!: makePostReq_Inr)

lemma initializationStage_Inl:
  assumes "initializationStage env url w = (Inl out, w')"
  shows "out = Exit 1 \<and> files w' = files w \<and>
         (\<exists>es. trace w' = trace w @ HttpGet url # es \<and> error_logs es \<noteq> [] \<and>
            (posts es = [] \<or>
             (\<exists>resp. http_Get env url = Inr resp \<and>
                posts es = [(Request_URL resp, request_header,
                             Sprintf init_format [Request_URL resp])])))"
  using assms
  by (auto simp: initializationStage_def Let_def split: sum.splits prod.splits
           dest!: makePostReq_Inr makePostReq_Inl)

lemma finalizationStage_Inr:
  assumes "finalizationStage env t token opq w = (Inr fr, w')"
  shows "\<exists>resp. http_NewRequest env t = None \<and>
           client_Do env t request_header (Sprintf final_format [opq, token]) = Inr resp \<and>
           Unmarshal_final env (Body resp) = Inr fr \<and> files w' = files w \<and>
           trace w' = trace w @
             [HttpPost t request_header (Sprintf final_format [opq, token]),
              LogCall LevelInfo ''successfullly received response from server'',
              LogCall LevelDebug ''received response'',
              LogCall LevelDebug ''received response from server'',
              LogCall LevelDebug ''unmarshalled final response'']"
  using assms
  by (auto simp: finalizationStage_def Let_def split: sum.splits prod.splits
           dest!: makePostReq_Inr)

lemma finalizationStage_Inl:
  assumes "finalizationStage env t token opq w = (Inl out, w')"
  shows "out = Exit 1 \<and> files w' = files w \<and>
         (\<exists>es. trace w' = trace w @ es \<and> error_logs es \<noteq> [] \<and>
            (posts es = [] \<or>
             posts es = [(t, request_header, Sprintf final_format [opq, token])]))"
  using assms
  by (auto simp: finalizationStage_def Let_def split: sum.splits prod.splits
           dest!: makePostReq_Inr makePostReq_Inl)

subsection \<open>The polling loop\<close>

lemma poll_round_miss:
  assumes "token_cookie env name i = None"
  shows "poll_round env name i w =
           (None, w\<lparr>trace := trace w @ round_events env i @ [TimeSleep (10 * Millisecond)]\<rparr>)"
  using assms
  by (cases "context_Cookies env i")
     (simp add: poll_round_def token_cookie_def round_events_def emit_def slog_def
        log_if_error_def)

lemma poll_round_hit:
  assumes "token_cookie env name i = Some c"
  shows "poll_round env name i w =
           (Some c, w\<lparr>trace := trace w @ round_events env i @
              [LogCall LevelInfo ''received successful authentication token cookie from browser'',
               BrowserClose]\<rparr>)"
  using assms
  by (cases "context_Cookies env i")
     (simp add: poll_round_def token_cookie_def round_events_def emit_def slog_def
        log_if_error_def)

lemma waiting_step: "i < n \<Longrightarrow>
  waiting env i n = round_events env i @ [TimeSleep (10 * Millisecond)] @ waiting env (Suc i) n"
  by (simp add: waiting_def upt_conv_Cons)

lemma waiting_same [simp]: "waiting env n n = []"
  by (simp add: waiting_def)

lemma poll_loop_skip:
  assumes "i \<le> n" and "\<forall>j. i \<le> j \<and> j < n \<longrightarrow> token_cookie env name j = None"
  shows "poll_loop env name i w = poll_loop env name n (w\<lparr>trace := trace w @ waiting env i n\<rparr>)"
  using assms
proof (induction arbitrary: w rule: inc_induct)
  case base
  show ?case by simp
next
  case (step k)
  have miss: "token_cookie env name k = None"
    using step.hyps step.prems by simp
  have "poll_loop env name k w =
          poll_loop env name (Suc k)
            (w\<lparr>trace := trace w @ round_events env k @ [TimeSleep (10 * Millisecond)]\<rparr>)"
    by (subst poll_loop.simps) (simp add: poll_round_miss [OF miss])
  also have "\<dots> = poll_loop env name n
      (w\<lparr>trace := trace w @ round_events env k @ [TimeSleep (10 * Millisecond)] @
            waiting env (Suc k) n\<rparr>)"
    using step.prems by (subst step.IH) simp_all
  finally show ?case
    using step.hyps by (simp add: waiting_step)
qed

lemma poll_loop_found:
  assumes "i \<le> n" and "\<forall>j. i \<le> j \<and> j < n \<longrightarrow> token_cookie env name j = None"
    and "token_cookie env name n = Some c"
  shows "poll_loop env name i w =
           Some (c, w\<lparr>trace := trace w @ waiting env i n @ round_events env n @
              [LogCall LevelInfo ''received successful authentication token cookie from browser'',
               BrowserClose]\<rparr>)"
proof -
  have "poll_loop env name i w = poll_loop env name n (w\<lparr>trace := trace w @ waiting env i n\<rparr>)"
    using assms(1,2) by (rule poll_loop_skip)
  also have "\<dots> = Some (c, w\<lparr>trace := trace w @ waiting env i n @ round_events env n @
              [LogCall LevelInfo ''received successful authentication token cookie from browser'',
               BrowserClose]\<rparr>)"
    by (subst poll_loop.simps) (simp add: poll_round_hit [OF assms(3)])
  finally show ?thesis .
qed

lemma poll_loop_Some_match:
  assumes "poll_loop env name i w = Some r"
  shows "\<exists>n\<ge>i. token_cookie env name n \<noteq> None"
proof (rule poll_loop.raw_induct
    [where P = "\<lambda>env name i w r. \<exists>n\<ge>i. token_cookie env name n \<noteq> None", OF _ assms],
    goal_cases)
  case (1 loop env name i w r)
  show ?case
  proof (cases "token_cookie env name i")
    case None
    with 1(2) have "loop env name (Suc i)
        (w\<lparr>trace := trace w @ round_events env i @ [TimeSleep (10 * Millisecond)]\<rparr>) = Some r"
      by (simp add: poll_round_miss)
    then obtain n where "Suc i \<le> n" "token_cookie env name n \<noteq> None"
      using 1(1) by blast
    then show ?thesis by (intro exI [of _ n]) simp
  next
    case (Some c)
    then show ?thesis by (intro exI [of _ i]) simp
  qed
qed

lemma poll_loop_never:
  assumes "\<forall>j\<ge>i. token_cookie env name j = None"
  shows "poll_loop env name i w = None"
proof (cases "poll_loop env name i w")
  case None
  then show ?thesis .
next
  case (Some r)
  then obtain n where "i \<le> n" "token_cookie env name n \<noteq> None"
    using poll_loop_Some_match by blast
  with assms show ?thesis by simp
qed

lemma poll_loop_Some:
  assumes "poll_loop env name i w = Some (c, w')"
  shows "\<exists>n\<ge>i. (\<forall>j. i \<le> j \<and> j < n \<longrightarrow> token_cookie env name j = None) \<and>
           token_cookie env name n = Some c \<and> files w' = files w \<and>
           trace w' = trace w @ waiting env i n @ round_events env n @
              [LogCall LevelInfo ''received successful authentication token cookie from browser'',
               BrowserClose]"
proof -
  obtain m where m: "i \<le> m" "token_cookie env name m \<noteq> None"
    using assms poll_loop_Some_match by blast
  define n where "n = (LEAST k. i \<le> k \<and> token_cookie env name k \<noteq> None)"
  have n: "i \<le> n \<and> token_cookie env name n \<noteq> None"
    unfolding n_def by (rule LeastI [of _ m]) (simp add: m)
  have least: "\<And>j. i \<le> j \<Longrightarrow> j < n \<Longrightarrow> token_cookie env name j = None"
    unfolding n_def using not_less_Least by blast
  from n obtain c' where c': "token_cookie env name n = Some c'" by auto
  have "poll_loop env name i w =
          Some (c', w\<lparr>trace := trace w @ waiting env i n @ round_events env n @
              [LogCall LevelInfo ''received successful authentication token cookie from browser'',
               BrowserClose]\<rparr>)"
    using n least c' by (intro poll_loop_found) auto
  with assms have "c = c'" and "w' = w\<lparr>trace := trace w @ waiting env i n @ round_events env n @
              [LogCall LevelInfo ''received successful authentication token cookie from browser'',
               BrowserClose]\<rparr>"
    by simp_all
  with n least c' show ?thesis by (intro exI [of _ n]) simp
qed

subsection \<open>The config writer\<close>

lemma writeOCConfig_Inr:
  assumes "writeOCConfig env cookie fp server ocFile w = (Inr u, w')"
  shows "os_WriteFile env ocFile
            (''cookie='' @ cookie @ ''\<newline>servercert='' @ fp @ ''\<newline># host='' @ server @ ''\<newline>'')
            perm_0600 (files w) = (None, files w') \<and>
         trace w' = trace w @
           [LogCall LevelInfo ''successfully written authentication details to file'']"
  using assms
  by (auto simp: writeOCConfig_def Sprintf_config Let_def simp del: Sprintf.simps 
      split: prod.splits option.splits)

lemma writeOCConfig_Inl:
  assumes "writeOCConfig env cookie fp server ocFile w = (Inl out, w')"
  shows "out = Exit 1 \<and>
         trace w' = trace w @
           [LogCall LevelError ''failed to write authentication details to file'']"
  using assms
  by (auto simp: writeOCConfig_def Let_def simp del: Sprintf.simps 
      split: prod.splits option.splits)




lemma writeOCConfig_ok:
  assumes "os_fault env ocFile = None"
  shows "writeOCConfig env cookie fingerprint server ocFile w =
     (Inr (),
      slog LevelInfo ''successfully written authentication details to file''
        (w\<lparr>files := (files w)(ocFile \<mapsto>
             (case files w ocFile of
                None \<Rightarrow> \<lparr>content = [], mode = perm_0600 AND NOT (umask env)\<rparr>
              | Some f \<Rightarrow> f\<lparr>content := []\<rparr>)
             \<lparr>content := ''cookie='' @ cookie @ ''\<newline>servercert='' @ fingerprint @
                           ''\<newline># host='' @ server @ ''\<newline>''\<rparr>)\<rparr>))"
  using assms
  by (simp add: writeOCConfig_def os_WriteFile_def Sprintf_config Let_def del: Sprintf.simps)


subsection \<open>Every run of main\<close>

lemma trace_setup_world:
  "trace (setup_world env w) = trace w @ LogCall LevelInfo ''Logger initialized'' # setup_logs env"
  by (simp add: setup_world_def setup_logs_def trace_log_if_error)

lemma files_setup_world [simp]: "files (setup_world env w) = files w"
  by (simp add: setup_world_def)

lemma main_panic_pw:
  assumes "\<not> fst (playwright_Run env)"
  shows "main env w =
     Some (Panic, log_if_error (snd (playwright_Run env)) ''could not launch playwright''
                    (slog LevelInfo ''Logger initialized'' w))"
  using assms by (simp add: main_def Let_def case_prod_beta)

lemma main_panic_browser:
  assumes "fst (playwright_Run env)" "\<not> fst (Firefox_Launch env)"
  shows "main env w =
     Some (Panic, log_if_error (snd (Firefox_Launch env)) ''could not launch Firefox''
                    (log_if_error (snd (playwright_Run env)) ''could not launch playwright''
                       (slog LevelInfo ''Logger initialized'' w)))"
  using assms by (simp add: main_def Let_def case_prod_beta)

lemma main_panic_context:
  assumes "fst (playwright_Run env)" "fst (Firefox_Launch env)" "\<not> fst (browser_NewContext env)"
  shows "main env w =
     Some (Panic, log_if_error (snd (browser_NewContext env)) ''could not create context''
                    (log_if_error (snd (Firefox_Launch env)) ''could not launch Firefox''
                       (log_if_error (snd (playwright_Run env)) ''could not launch playwright''
                          (slog LevelInfo ''Logger initialized'' w))))"
  using assms by (simp add: main_def Let_def case_prod_beta)

lemma main_init_exit:
  assumes "fst (playwright_Run env)" "fst (Firefox_Launch env)" "fst (browser_NewContext env)"
    and "initializationStage env (arg_server env) (setup_world env w) = (Inl out, w6)"
  shows "main env w = Some (out, w6)"
  using assms by (simp add: main_def Let_def case_prod_beta setup_world_def)

lemma main_panic_page:
  assumes "fst (playwright_Run env)" "fst (Firefox_Launch env)" "fst (browser_NewContext env)"
    and "initializationStage env (arg_server env) (setup_world env w) = (Inr (ir, t), w6)"
    and "\<not> fst (context_NewPage env)"
  shows "main env w =
     Some (Panic,
       slog LevelInfo ''waiting to detect successful authentication token cookie on the browser''
         w6)"
  using assms by (simp add: main_def Let_def case_prod_beta setup_world_def)

lemma main_never_ends:
  assumes "fst (playwright_Run env)" "fst (Firefox_Launch env)"
    "fst (browser_NewContext env)" "fst (context_NewPage env)"
    and "initializationStage env (arg_server env) (setup_world env w) = (Inr (ir, t), w6)"
    and "poll_loop env (TokenCookieName ir) 0
           (emit (PageGoto (LoginURL ir))
              (slog LevelInfo
                 ''waiting to detect successful authentication token cookie on the browser''
                 w6)) = None"
  shows "main env w = None"
  using assms by (simp add: main_def Let_def case_prod_beta setup_world_def)

lemma main_final_exit:
  assumes "fst (playwright_Run env)" "fst (Firefox_Launch env)"
    "fst (browser_NewContext env)" "fst (context_NewPage env)"
    and "initializationStage env (arg_server env) (setup_world env w) = (Inr (ir, t), w6)"
    and "poll_loop env (TokenCookieName ir) 0
           (emit (PageGoto (LoginURL ir))
              (slog LevelInfo
                 ''waiting to detect successful authentication token cookie on the browser''
                 w6)) = Some (c, w9)"
    and "finalizationStage env t (NetworkCookie.Value c) (Opaque.Value (Opaque ir)) w9
           = (Inl out, w10)"
  shows "main env w = Some (out, w10)"
  using assms by (simp add: main_def Let_def case_prod_beta setup_world_def)

lemma main_written:
  assumes "fst (playwright_Run env)" "fst (Firefox_Launch env)"
    "fst (browser_NewContext env)" "fst (context_NewPage env)"
    and "initializationStage env (arg_server env) (setup_world env w) = (Inr (ir, t), w6)"
    and "poll_loop env (TokenCookieName ir) 0
           (emit (PageGoto (LoginURL ir))
              (slog LevelInfo
                 ''waiting to detect successful authentication token cookie on the browser''
                 w6)) = Some (c, w9)"
    and "finalizationStage env t (NetworkCookie.Value c) (Opaque.Value (Opaque ir)) w9
           = (Inr fr, w10)"
    and "writeOCConfig env (Cookie fr) (Fingerprint fr) t (arg_config env)
           (slog LevelInfo
              ''received openconnect server fingerprint and connection cookie successfully''
              w10) = (res, w12)"
  shows "main env w = Some (case res of Inl out \<Rightarrow> out | Inr u \<Rightarrow> Exit 0, w12)"
  using assms by (simp add: main_def Let_def case_prod_beta setup_world_def split: sum.splits)

lemma main_cases [case_names no_pw no_browser no_context init_exit no_page never_ends final_exit written]:
  obtains
    (no_pw) "\<not> fst (playwright_Run env)"
  | (no_browser) "fst (playwright_Run env)" "\<not> fst (Firefox_Launch env)"
  | (no_context) "fst (playwright_Run env)" "fst (Firefox_Launch env)"
      "\<not> fst (browser_NewContext env)"
  | (init_exit) out w6 where "fst (playwright_Run env)" "fst (Firefox_Launch env)"
      "fst (browser_NewContext env)"
      "initializationStage env (arg_server env) (setup_world env w) = (Inl out, w6)"
  | (no_page) ir t w6 where "fst (playwright_Run env)" "fst (Firefox_Launch env)"
      "fst (browser_NewContext env)"
      "initializationStage env (arg_server env) (setup_world env w) = (Inr (ir, t), w6)"
      "\<not> fst (context_NewPage env)"
  | (never_ends) ir t w6 where "fst (playwright_Run env)" "fst (Firefox_Launch env)"
      "fst (browser_NewContext env)" "fst (context_NewPage env)"
      "initializationStage env (arg_server env) (setup_world env w) = (Inr (ir, t), w6)"
      "poll_loop env (TokenCookieName ir) 0
         (emit (PageGoto (LoginURL ir)) (slog LevelInfo waiting_msg w6)) = None"
  | (final_exit) ir t w6 c w9 out w10 where "fst (playwright_Run env)" "fst (Firefox_Launch env)"
      "fst (browser_NewContext env)" "fst (context_NewPage env)"
      "initializationStage env (arg_server env) (setup_world env w) = (Inr (ir, t), w6)"
      "poll_loop env (TokenCookieName ir) 0
         (emit (PageGoto (LoginURL ir)) (slog LevelInfo waiting_msg w6)) = Some (c, w9)"
      "finalizationStage env t (NetworkCookie.Value c) (Opaque.Value (Opaque ir)) w9
         = (Inl out, w10)"
  | (written) ir t w6 c w9 fr w10 res w12 where "fst (playwright_Run env)"
      "fst (Firefox_Launch env)" "fst (browser_NewContext env)" "fst (context_NewPage env)"
      "initializationStage env (arg_server env) (setup_world env w) = (Inr (ir, t), w6)"
      "poll_loop env (TokenCookieName ir) 0
         (emit (PageGoto (LoginURL ir)) (slog LevelInfo waiting_msg w6)) = Some (c, w9)"
      "finalizationStage env t (NetworkCookie.Value c) (Opaque.Value (Opaque ir)) w9
         = (Inr fr, w10)"
      "writeOCConfig env (Cookie fr) (Fingerprint fr) t (arg_config env)
         (slog LevelInfo
            ''received openconnect server fingerprint and connection cookie successfully''
            w10) = (res, w12)"
proof (cases "fst (playwright_Run env) \<and> fst (Firefox_Launch env) \<and> fst (browser_NewContext env)")
  case False
  then show ?thesis using no_pw no_browser no_context by blast
next
  case handles: True
  obtain r6 w6 where init: "initializationStage env (arg_server env) (setup_world env w) = (r6, w6)"
    by (cases "initializationStage env (arg_server env) (setup_world env w)")
  show ?thesis
  proof (cases r6)
    case (Inl out)
    then show ?thesis using handles init init_exit by blast
  next
    case (Inr p)
    obtain ir t where p: "p = (ir, t)" by (cases p)
    note init' = init [unfolded Inr p]
    show ?thesis
    proof (cases "fst (context_NewPage env)")
      case False
      then show ?thesis using handles init' no_page by blast
    next
      case page: True
      show ?thesis
      proof (cases "poll_loop env (TokenCookieName ir) 0
         (emit (PageGoto (LoginURL ir)) (slog LevelInfo waiting_msg w6))")
        case None
        then show ?thesis using handles init' page never_ends by blast
      next
        case (Some cw)
        obtain c w9 where cw: "cw = (c, w9)" by (cases cw)
        note loop = Some [unfolded cw]
        obtain r10 w10 where fin:
          "finalizationStage env t (NetworkCookie.Value c) (Opaque.Value (Opaque ir)) w9
             = (r10, w10)"
          by (cases "finalizationStage env t (NetworkCookie.Value c) (Opaque.Value (Opaque ir)) w9")
        show ?thesis
        proof (cases r10)
          case (Inl out)
          then show ?thesis using handles init' page loop fin final_exit by blast
        next
          case (Inr fr)
          obtain res w12 where "writeOCConfig env (Cookie fr) (Fingerprint fr) t (arg_config env)
             (slog LevelInfo
                ''received openconnect server fingerprint and connection cookie successfully''
                w10) = (res, w12)"
            by (cases "writeOCConfig env (Cookie fr) (Fingerprint fr) t (arg_config env)
             (slog LevelInfo
                ''received openconnect server fingerprint and connection cookie successfully''
                w10)")
          then show ?thesis using handles init' page loop fin [unfolded Inr] written by blast
        qed
      qed
    qed
  qed
qed

subsection \<open>The jar and the loop\<close>

lemma token_cookie_None_iff:
  "token_cookie env name i = None \<longleftrightarrow>
     (\<forall>x \<in> set (fst (context_Cookies env i)). Name x \<noteq> name)"
  by (auto simp: token_cookie_def find_None_iff)

lemma token_cookie_Some_iff:
  "token_cookie env name i = Some c \<longleftrightarrow>
     (\<exists>k < length (fst (context_Cookies env i)).
        fst (context_Cookies env i) ! k = c \<and> Name c = name \<and>
        (\<forall>l<k. Name (fst (context_Cookies env i) ! l) \<noteq> name))"
  by (auto simp: token_cookie_def find_Some_iff)

lemma BrowserClose_notin_round: "BrowserClose \<notin> set (round_events env i)"
  by (simp add: round_events_def)

lemma BrowserClose_notin_waiting: "BrowserClose \<notin> set (waiting env i n)"
  by (simp add: waiting_def BrowserClose_notin_round)

lemma poll_env0:
  "poll_loop env0 ''ssotoken'' 0 w =
     Some (sso, w\<lparr>trace := trace w @
       [ContextCookies, TimeSleep (10 * Millisecond), ContextCookies,
        LogCall LevelInfo received_cookie_msg, BrowserClose]\<rparr>)"
proof -
  have miss: "\<forall>j. 0 \<le> j \<and> j < 1 \<longrightarrow> token_cookie env0 ''ssotoken'' j = None"
    by (simp add: token_cookie_def env0_def decoy_def)
  have hit: "token_cookie env0 ''ssotoken'' 1 = Some sso"
    by (simp add: token_cookie_def env0_def decoy_def sso_def)
  have "(0::nat) \<le> 1" by simp
  from poll_loop_found [OF this miss hit, of w] show ?thesis
    by (simp add: waiting_def round_events_def env0_def)
qed

lemma sleeps_append [simp]: "sleeps (xs @ ys) = sleeps xs @ sleeps ys"
  by (induction xs rule: sleeps.induct) simp_all

lemma sleeps_round [simp]: "sleeps (round_events env i) = []"
  by (simp add: round_events_def)

lemma sleeps_waiting: "sleeps (waiting env i (i + n)) = replicate n 10000000"
proof (induction n arbitrary: i)
  case 0
  show ?case by simp
next
  case (Suc n)
  have "waiting env i (i + Suc n) =
          round_events env i @ [TimeSleep (10 * Millisecond)] @ waiting env (Suc i) (Suc i + n)"
    by (simp add: waiting_step)
  then show ?case
    using Suc.IH [of "Suc i"] by (simp add: Millisecond_def)
qed

subsection \<open>Stages that succeed\<close>

lemma initializationStage_ok:
  assumes "http_Get env url = Inr resp" "http_NewRequest env (Request_URL resp) = None"
    "client_Do env (Request_URL resp) request_header (Sprintf init_format [Request_URL resp])
       = Inr resp2"
    "Unmarshal_init env (Body resp2) = Inr ir"
  shows "initializationStage env url w =
     (Inr (ir, Request_URL resp),
      w\<lparr>trace := trace w @
        [HttpGet url,
         LogCall LevelDebug ''configuring VPN request'',
         HttpPost (Request_URL resp) request_header (Sprintf init_format [Request_URL resp]),
         LogCall LevelInfo ''successfullly received response from server'',
         LogCall LevelDebug ''received response'',
         LogCall LevelDebug ''received response from server'',
         LogCall LevelInfo ''unmarshalled init response'']\<rparr>)"
  using assms
  by (simp add: initializationStage_def makePostReq_def Let_def emit_def slog_def
        del: Sprintf.simps)

lemma finalizationStage_ok:
  assumes "http_NewRequest env t = None"
    "client_Do env t request_header (Sprintf final_format [opq, token]) = Inr resp"
    "Unmarshal_final env (Body resp) = Inr fr"
  shows "finalizationStage env t token opq w =
     (Inr fr,
      w\<lparr>trace := trace w @
        [HttpPost t request_header (Sprintf final_format [opq, token]),
         LogCall LevelInfo ''successfullly received response from server'',
         LogCall LevelDebug ''received response'',
         LogCall LevelDebug ''received response from server'',
         LogCall LevelDebug ''unmarshalled final response'']\<rparr>)"
  using assms
  by (simp add: finalizationStage_def makePostReq_def Let_def emit_def slog_def
        del: Sprintf.simps)

subsection \<open>The request header\<close>

lemma canonical_keys:
  "CanonicalMIMEHeaderKey ''User-Agent'' = ''User-Agent''"
  "CanonicalMIMEHeaderKey ''Accept'' = ''Accept''"
  "CanonicalMIMEHeaderKey ''Accept-Encoding'' = ''Accept-Encoding''"
  "CanonicalMIMEHeaderKey ''X-Transcend-Version'' = ''X-Transcend-Version''"
  "CanonicalMIMEHeaderKey ''X-Aggregate-Auth'' = ''X-Aggregate-Auth''"
  "CanonicalMIMEHeaderKey ''X-Support-HTTP-Auth'' = ''X-Support-Http-Auth''"
  "CanonicalMIMEHeaderKey ''Content-Type'' = ''Content-Type''"
  by code_simp+

lemma canonical_headers:
  "map (\<lambda>(k, v). (CanonicalMIMEHeaderKey k, [v])) headers =
     [(''User-Agent'', [''AnyConnect Linux_64 4.7.00136'']),
      (''Accept'', [''*/*'']),
      (''Accept-Encoding'', [''identity'']),
      (''X-Transcend-Version'', [''1'']),
      (''X-Aggregate-Auth'', [''1'']),
      (''X-Support-Http-Auth'', [''true'']),
      (''Content-Type'', [''application/x-www-form-urlencoded''])]"
  by (simp add: headers_def canonical_keys)

lemma fold_Header_Set:
  assumes "distinct (map (\<lambda>(k, v). CanonicalMIMEHeaderKey k) kvs)"
  shows "fold (\<lambda>(k, v) h. Header_Set h k v) kvs h0 =
           h0 ++ map_of (map (\<lambda>(k, v). (CanonicalMIMEHeaderKey k, [v])) kvs)"
  using assms
proof (induction kvs arbitrary: h0)
  case Nil
  show ?case by simp
next
  case (Cons kv kvs)
  obtain k v where kv: "kv = (k, v)" by (cases kv)
  let ?m = "map_of (map (\<lambda>(k, v). (CanonicalMIMEHeaderKey k, [v])) kvs)"
  have fresh: "?m (CanonicalMIMEHeaderKey k) = None"
  proof -
    have "CanonicalMIMEHeaderKey k \<notin> fst ` set (map (\<lambda>(k, v). (CanonicalMIMEHeaderKey k, [v])) kvs)"
      using Cons.prems by (force simp: kv)
    then show ?thesis by (simp add: map_of_eq_None_iff)
  qed
  have "fold (\<lambda>(k, v) h. Header_Set h k v) (kv # kvs) h0 =
          fold (\<lambda>(k, v) h. Header_Set h k v) kvs (Header_Set h0 k v)"
    by (simp add: kv)
  also have "\<dots> = Header_Set h0 k v ++ ?m"
    using Cons.prems by (intro Cons.IH) simp
  also have "\<dots> = h0 ++ ?m(CanonicalMIMEHeaderKey k \<mapsto> [v])"
    using fresh by (auto simp: Header_Set_def map_add_def fun_eq_iff split: option.splits)
  also have "\<dots> = h0 ++ map_of (map (\<lambda>(k, v). (CanonicalMIMEHeaderKey k, [v])) (kv # kvs))"
    by (simp add: kv)
  finally show ?case .
qed

lemma request_header_eq:
  "request_header =
     map_of
     [(''User-Agent'', [''AnyConnect Linux_64 4.7.00136'']),
      (''Accept'', [''*/*'']),
      (''Accept-Encoding'', [''identity'']),
      (''X-Transcend-Version'', [''1'']),
      (''X-Aggregate-Auth'', [''1'']),
      (''X-Support-Http-Auth'', [''true'']),
      (''Content-Type'', [''application/x-www-form-urlencoded''])]"
proof -
  have "distinct (map (\<lambda>(k, v). CanonicalMIMEHeaderKey k) headers)"
    by (simp add: headers_def canonical_keys)
  then show ?thesis
    unfolding request_header_def request_header_of_def
    by (subst fold_Header_Set) (simp_all only: canonical_headers empty_map_add)
qed

lemma request_header_of_perm:
  assumes "mset kvs = mset headers"
  shows "request_header_of kvs = request_header"
proof -
  let ?c = "\<lambda>(k, v). (CanonicalMIMEHeaderKey k, [v :: string])"
  have keys: "(\<lambda>(k, v). CanonicalMIMEHeaderKey k) = fst \<circ> ?c"
    by (auto simp: fun_eq_iff)
  have d0: "distinct (map fst (map ?c headers))"
    by (simp only: canonical_headers) simp
  have m: "mset (map ?c kvs) = mset (map ?c headers)"
    using assms by simp
  have "mset (map fst (map ?c kvs)) = mset (map fst (map ?c headers))"
    using assms by simp
  from mset_eq_imp_distinct_iff [OF this] d0 have d: "distinct (map fst (map ?c kvs))"
    by blast
  have "set (map ?c kvs) = set (map ?c headers)"
    using m by (rule mset_eq_setD)
  then have "map_of (map ?c kvs) = map_of (map ?c headers)"
    using d d0 by (simp only: map_of_inject_set)
  moreover have "request_header_of kvs = map_of (map ?c kvs)"
    unfolding request_header_of_def using d by (subst fold_Header_Set) (simp_all add: keys)
  moreover have "request_header = map_of (map ?c headers)"
    unfolding request_header_def request_header_of_def using d0
    by (subst fold_Header_Set) (simp_all add: keys)
  ultimately show ?thesis by simp
qed

lemma request_header_dom:
  "dom request_header =
     {''User-Agent'', ''Accept'', ''Accept-Encoding'', ''X-Transcend-Version'',
      ''X-Aggregate-Auth'', ''X-Support-Http-Auth'', ''Content-Type''}"
  unfolding request_header_eq by (simp only: dom_map_of_conv_image_fst) auto

lemma request_header_Get:
  "Header_Get request_header ''User-Agent'' = ''AnyConnect Linux_64 4.7.00136''"
  "Header_Get request_header ''Accept'' = ''*/*''"
  "Header_Get request_header ''Accept-Encoding'' = ''identity''"
  "Header_Get request_header ''X-Transcend-Version'' = ''1''"
  "Header_Get request_header ''X-Aggregate-Auth'' = ''1''"
  "Header_Get request_header ''X-Support-HTTP-Auth'' = ''true''"
  "Header_Get request_header ''Content-Type'' = ''application/x-www-form-urlencoded''"
  by (simp_all add: Header_Get_def canonical_keys request_header_eq)


subsection \<open>The POST requests of a run\<close>

lemma posts_log_if_error [simp]: "posts (trace (log_if_error err m w)) = posts (trace w)"
  by (simp add: log_if_error_def)

lemma posts_setup_logs [simp]: "posts (setup_logs env) = []"
  by (simp add: setup_logs_def)

lemma posts_round_events [simp]: "posts (round_events env i) = []"
  by (simp add: round_events_def)

lemma posts_waiting [simp]: "posts (waiting env i n) = []"
  by (induction n) (simp_all add: waiting_def)

lemma init_Inl_posts:
  assumes "initializationStage env url w = (Inl out, w')"
  shows "posts (trace w') = posts (trace w) \<or>
         (\<exists>resp. http_Get env url = Inr resp \<and>
            posts (trace w') = posts (trace w) @ [init_post (Request_URL resp)])"
proof -
  from initializationStage_Inl [OF assms] obtain es where
    es: "trace w' = trace w @ HttpGet url # es"
    and alt: "posts es = [] \<or>
             (\<exists>resp. http_Get env url = Inr resp \<and>
                posts es = [(Request_URL resp, request_header,
                             Sprintf init_format [Request_URL resp])])"
    by blast
  have "posts (trace w') = posts (trace w) @ posts es"
    by (simp add: es)
  with alt show ?thesis
    unfolding init_post_def by (elim disjE exE conjE) (simp, metis)
qed

lemma init_Inr_posts:
  assumes "initializationStage env url w = (Inr (ir, t), w')"
  shows "\<exists>resp resp2. http_Get env url = Inr resp \<and> t = Request_URL resp \<and>
           client_Do env t request_header (Sprintf init_format [t]) = Inr resp2 \<and>
           Unmarshal_init env (Body resp2) = Inr ir \<and>
           posts (trace w') = posts (trace w) @ [init_post t]"
proof -
  from initializationStage_Inr [OF assms] obtain resp resp2 where
    f: "http_Get env url = Inr resp" "t = Request_URL resp"
      "client_Do env t request_header (Sprintf init_format [t]) = Inr resp2"
      "Unmarshal_init env (Body resp2) = Inr ir"
    and tr: "trace w' = trace w @
             [HttpGet url,
              LogCall LevelDebug ''configuring VPN request'',
              HttpPost t request_header (Sprintf init_format [t]),
              LogCall LevelInfo ''successfullly received response from server'',
              LogCall LevelDebug ''received response'',
              LogCall LevelDebug ''received response from server'',
              LogCall LevelInfo ''unmarshalled init response'']"
    by blast
  have "posts (trace w') = posts (trace w) @ [init_post t]"
    unfolding tr init_post_def by (simp del: Sprintf.simps)
  with f show ?thesis by blast
qed

lemma poll_posts:
  assumes "poll_loop env name 0 w = Some (c, w')"
  shows "\<exists>n. (\<forall>j<n. token_cookie env name j = None) \<and> token_cookie env name n = Some c \<and>
           posts (trace w') = posts (trace w)"
proof -
  from poll_loop_Some [OF assms] obtain n where
    n: "\<forall>j. 0 \<le> j \<and> j < n \<longrightarrow> token_cookie env name j = None"
      "token_cookie env name n = Some c"
    and tr: "trace w' = trace w @ waiting env 0 n @ round_events env n @
              [LogCall LevelInfo received_cookie_msg, BrowserClose]"
    by blast
  have "posts (trace w') = posts (trace w)"
    unfolding tr by simp
  with n show ?thesis by auto
qed

lemma final_Inl_posts:
  assumes "finalizationStage env t (NetworkCookie.Value c) (Opaque.Value (Opaque ir)) w
             = (Inl out, w')"
  shows "posts (trace w') = posts (trace w) \<or>
         posts (trace w') = posts (trace w) @ [final_post t ir c]"
proof -
  from finalizationStage_Inl [OF assms] obtain es where
    es: "trace w' = trace w @ es"
    and alt: "posts es = [] \<or>
      posts es = [(t, request_header,
                   Sprintf final_format [Opaque.Value (Opaque ir), NetworkCookie.Value c])]"
    by blast
  have "posts (trace w') = posts (trace w) @ posts es"
    by (simp add: es)
  with alt show ?thesis
    unfolding final_post_def by (elim disjE) simp_all
qed

lemma final_Inr_posts:
  assumes "finalizationStage env t (NetworkCookie.Value c) (Opaque.Value (Opaque ir)) w
             = (Inr fr, w')"
  shows "posts (trace w') = posts (trace w) @ [final_post t ir c]"
proof -
  from finalizationStage_Inr [OF assms] have
    tr: "trace w' = trace w @
             [HttpPost t request_header
                (Sprintf final_format [Opaque.Value (Opaque ir), NetworkCookie.Value c]),
              LogCall LevelInfo ''successfullly received response from server'',
              LogCall LevelDebug ''received response'',
              LogCall LevelDebug ''received response from server'',
              LogCall LevelDebug ''unmarshalled final response'']"
    by blast
  show ?thesis
    unfolding tr final_post_def by (simp del: Sprintf.simps)
qed

lemma write_posts:
  assumes "writeOCConfig env cookie fp server ocFile w = (res, w')"
  shows "posts (trace w') = posts (trace w)"
proof (cases res)
  case (Inl out)
  from writeOCConfig_Inl [OF assms [unfolded Inl]] show ?thesis by simp
next
  case (Inr u)
  from writeOCConfig_Inr [OF assms [unfolded Inr]] show ?thesis by simp
qed


lemma run_posts:
  assumes "run env fs = Some (out, w')"
  shows "posts (trace w') = [] \<or>
    (\<exists>resp. http_Get env (arg_server env) = Inr resp \<and>
       (posts (trace w') = [init_post (Request_URL resp)] \<or>
        (\<exists>resp2 ir n c.
           client_Do env (Request_URL resp) request_header
             (Sprintf init_format [Request_URL resp]) = Inr resp2 \<and>
           Unmarshal_init env (Body resp2) = Inr ir \<and>
           (\<forall>j<n. token_cookie env (TokenCookieName ir) j = None) \<and>
           token_cookie env (TokenCookieName ir) n = Some c \<and>
           posts (trace w') = [init_post (Request_URL resp), final_post (Request_URL resp) ir c])))"
proof -
  let ?w = "\<lparr>trace = [], files = fs\<rparr>"
  have start: "posts (trace (setup_world env ?w)) = []"
    by (simp add: trace_setup_world)
  from assms have run: "main env ?w = Some (out, w')"
    by (simp add: run_def)
  show ?thesis
  proof (cases rule: main_cases [where env = env and w = ?w])
    case no_pw
    from main_panic_pw [OF this, of ?w] run have "posts (trace w') = []" by auto
    then show ?thesis ..
  next
    case no_browser
    from main_panic_browser [OF this, of ?w] run have "posts (trace w') = []" by auto
    then show ?thesis ..
  next
    case no_context
    from main_panic_context [OF this, of ?w] run have "posts (trace w') = []" by auto
    then show ?thesis ..
  next
    case (init_exit out6 w6)
    from main_init_exit [OF this] run have "w' = w6" by simp
    with init_Inl_posts [OF init_exit(4)] start show ?thesis
      by (simp only: append_Nil) blast
  next
    case (no_page ir t w6)
    from main_panic_page [OF this] run
    have "posts (trace w') = posts (trace w6)" by auto
    with init_Inr_posts [OF no_page(4)] start show ?thesis
      by (simp only: append_Nil) blast
  next
    case (never_ends ir t w6)
    from main_never_ends [OF this] run show ?thesis by simp
  next
    case (final_exit ir t w6 c w9 out10 w10)
    from main_final_exit [OF this] run have w': "w' = w10" by simp
    from init_Inr_posts [OF final_exit(5)] start obtain resp resp2 where
      init: "http_Get env (arg_server env) = Inr resp" "t = Request_URL resp"
        "client_Do env t request_header (Sprintf init_format [t]) = Inr resp2"
        "Unmarshal_init env (Body resp2) = Inr ir"
        "posts (trace w6) = [init_post t]"
      by (simp only: append_Nil) blast
    from poll_posts [OF final_exit(6)] obtain n where
      loop: "\<forall>j<n. token_cookie env (TokenCookieName ir) j = None"
        "token_cookie env (TokenCookieName ir) n = Some c"
        "posts (trace w9) = [init_post t]"
      using init(5) by auto
    from final_Inl_posts [OF final_exit(7)] loop(3)
    have "posts (trace w') = [init_post t] \<or> posts (trace w') = [init_post t, final_post t ir c]"
      unfolding w' by simp
    with init(1,3,4) loop(1,2) show ?thesis unfolding init(2) by blast
  next
    case (written ir t w6 c w9 fr w10 res w12)
    from main_written [OF this] run have w': "w' = w12" by simp
    from init_Inr_posts [OF written(5)] start obtain resp resp2 where
      init: "http_Get env (arg_server env) = Inr resp" "t = Request_URL resp"
        "client_Do env t request_header (Sprintf init_format [t]) = Inr resp2"
        "Unmarshal_init env (Body resp2) = Inr ir"
        "posts (trace w6) = [init_post t]"
      by (simp only: append_Nil) blast
    from poll_posts [OF written(6)] obtain n where
      loop: "\<forall>j<n. token_cookie env (TokenCookieName ir) j = None"
        "token_cookie env (TokenCookieName ir) n = Some c"
        "posts (trace w9) = [init_post t]"
      using init(5) by auto
    from final_Inr_posts [OF written(7)] loop(3) write_posts [OF written(8)]
    have "posts (trace w') = [init_post t, final_post t ir c]"
      unfolding w' by simp
    with init(1,3,4) loop(1,2) show ?thesis unfolding init(2) by blast
  qed
qed


subsection \<open>Runs that end with status 0\<close>

lemma os_WriteFile_None:
  assumes "os_WriteFile env name data perm fs = (None, fs')"
  shows "os_fault env name = None \<and>
         fs' = fs(name \<mapsto>
           \<lparr>content = data,
            mode = (case fs name of None \<Rightarrow> perm AND NOT (umask env) | Some f \<Rightarrow> mode f)\<rparr>)"
  using assms
  by (auto simp: os_WriteFile_def Let_def split: option.splits write_fault.splits)

lemma run_Exit_0:
  assumes "run env fs = Some (Exit 0, w')"
  shows "\<exists>resp resp2 ir n c resp3 fr.
     http_Get env (arg_server env) = Inr resp \<and>
     client_Do env (Request_URL resp) request_header
       (Sprintf init_format [Request_URL resp]) = Inr resp2 \<and>
     Unmarshal_init env (Body resp2) = Inr ir \<and>
     (\<forall>j<n. token_cookie env (TokenCookieName ir) j = None) \<and>
     token_cookie env (TokenCookieName ir) n = Some c \<and>
     client_Do env (Request_URL resp) request_header
       (Sprintf final_format [Opaque.Value (Opaque ir), NetworkCookie.Value c]) = Inr resp3 \<and>
     Unmarshal_final env (Body resp3) = Inr fr \<and>
     posts (trace w') = [init_post (Request_URL resp), final_post (Request_URL resp) ir c] \<and>
     files w' = fs(arg_config env \<mapsto>
       \<lparr>content = ''cookie='' @ Cookie fr @ ''\<newline>servercert='' @ Fingerprint fr @
                   ''\<newline># host='' @ Request_URL resp @ ''\<newline>'',
        mode = (case fs (arg_config env) of
                  None \<Rightarrow> perm_0600 AND NOT (umask env)
                | Some f \<Rightarrow> mode f)\<rparr>)"
proof -
  let ?w = "\<lparr>trace = [], files = fs\<rparr>"
  have start: "posts (trace (setup_world env ?w)) = []" "files (setup_world env ?w) = fs"
    by (simp_all add: trace_setup_world)
  from assms have run: "main env ?w = Some (Exit 0, w')"
    by (simp add: run_def)
  show ?thesis
  proof (cases rule: main_cases [where env = env and w = ?w])
    case no_pw
    from main_panic_pw [OF this, of ?w] run show ?thesis by simp
  next
    case no_browser
    from main_panic_browser [OF this, of ?w] run show ?thesis by simp
  next
    case no_context
    from main_panic_context [OF this, of ?w] run show ?thesis by simp
  next
    case (init_exit out6 w6)
    from main_init_exit [OF this] run initializationStage_Inl [OF init_exit(4)]
    show ?thesis by simp
  next
    case (no_page ir t w6)
    from main_panic_page [OF this] run show ?thesis by simp
  next
    case (never_ends ir t w6)
    from main_never_ends [OF this] run show ?thesis by simp
  next
    case (final_exit ir t w6 c w9 out10 w10)
    from main_final_exit [OF this] run finalizationStage_Inl [OF final_exit(7)]
    show ?thesis by simp
  next
    case (written ir t w6 c w9 fr w10 res w12)
    from main_written [OF this] run
    have w': "w' = w12" and res: "(case res of Inl out \<Rightarrow> out | Inr u \<Rightarrow> Exit 0) = Exit 0"
      by simp_all
    have "res = Inr ()"
    proof (cases res)
      case (Inl o12)
      from writeOCConfig_Inl [OF written(8) [unfolded Inl]] res Inl show ?thesis by simp
    next
      case (Inr u)
      then show ?thesis by simp
    qed
    note wr = writeOCConfig_Inr [OF written(8) [unfolded this]]
    from init_Inr_posts [OF written(5)] start(1) obtain resp resp2 where
      init: "http_Get env (arg_server env) = Inr resp" "t = Request_URL resp"
        "client_Do env t request_header (Sprintf init_format [t]) = Inr resp2"
        "Unmarshal_init env (Body resp2) = Inr ir"
        "posts (trace w6) = [init_post t]"
      by (simp only: append_Nil) blast
    from initializationStage_Inr [OF written(5)] start(2) have f6: "files w6 = fs"
      by auto
    from poll_posts [OF written(6)] obtain n where
      loop: "\<forall>j<n. token_cookie env (TokenCookieName ir) j = None"
        "token_cookie env (TokenCookieName ir) n = Some c"
        "posts (trace w9) = [init_post t]"
      using init(5) by auto
    from poll_loop_Some [OF written(6)] f6 have f9: "files w9 = fs"
      by auto
    from finalizationStage_Inr [OF written(7)] f9 obtain resp3 where
      fin: "client_Do env t request_header
              (Sprintf final_format [Opaque.Value (Opaque ir), NetworkCookie.Value c]) = Inr resp3"
        "Unmarshal_final env (Body resp3) = Inr fr" "files w10 = fs"
      by auto
    from final_Inr_posts [OF written(7)] loop(3) write_posts [OF written(8)]
    have p: "posts (trace w') = [init_post t, final_post t ir c]"
      unfolding w' by simp
    from wr fin(3) have "os_WriteFile env (arg_config env)
        (''cookie='' @ Cookie fr @ ''\<newline>servercert='' @ Fingerprint fr @
         ''\<newline># host='' @ t @ ''\<newline>'') perm_0600 fs = (None, files w')"
      unfolding w' by simp
    from os_WriteFile_None [OF this]
    have "files w' = fs(arg_config env \<mapsto>
       \<lparr>content = ''cookie='' @ Cookie fr @ ''\<newline>servercert='' @ Fingerprint fr @
                   ''\<newline># host='' @ t @ ''\<newline>'',
        mode = (case fs (arg_config env) of
                  None \<Rightarrow> perm_0600 AND NOT (umask env)
                | Some f \<Rightarrow> mode f)\<rparr>)"
      by simp
    with init(1,3,4) loop(1,2) fin(1,2) p show ?thesis unfolding init(2) by blast
  qed
qed

lemma env0_calls:
  "fst (playwright_Run env0)" "fst (Firefox_Launch env0)" "fst (browser_NewContext env0)"
  "fst (context_NewPage env0)" "setup_logs env0 = []"
  "arg_server env0 = ''https://vpn.example.com''" "arg_config env0 = ''/tmp/oc.conf''"
  "http_Get env0 u = Inr \<lparr>StatusCode = 200, Request_URL = ''https://vpn2.example.com'',
                          Body = [], Body_err = None\<rparr>"
  "http_NewRequest env0 u = None"
  "client_Do env0 u h b = Inr \<lparr>StatusCode = 200, Request_URL = u, Body = ''<config-auth/>'',
                                  Body_err = None\<rparr>"
  "Unmarshal_init env0 b = Inr \<lparr>LoginURL = ''https://idp.example.com/login'',
                                    LoginFinalURL = [], TokenCookieName = ''ssotoken'',
                                    Opaque = \<lparr>Opaque.Value = ''abc123''\<rparr>\<rparr>"
  "Unmarshal_final env0 b = Inr \<lparr>Cookie = ''sesscookie'', Fingerprint = ''fp789''\<rparr>"
  "os_fault env0 p = None"
  by (simp_all add: env0_def setup_logs_def)

lemma env0_umask: "perm_0600 AND NOT (umask env0) = perm_0600"
  by (simp add: env0_def perm_0600_def)

lemma run_env0:
  "run env0 Map.empty =
     Some (Exit 0,
       \<lparr>trace =
          [LogCall LevelInfo ''Logger initialized'',
           HttpGet ''https://vpn.example.com'',
           LogCall LevelDebug ''configuring VPN request'',
           HttpPost ''https://vpn2.example.com'' request_header
             (Sprintf init_format [''https://vpn2.example.com'']),
           LogCall LevelInfo ''successfullly received response from server'',
           LogCall LevelDebug ''received response'',
           LogCall LevelDebug ''received response from server'',
           LogCall LevelInfo ''unmarshalled init response'',
           LogCall LevelInfo waiting_msg,
           PageGoto ''https://idp.example.com/login'',
           ContextCookies, TimeSleep (10 * Millisecond), ContextCookies,
           LogCall LevelInfo received_cookie_msg, BrowserClose,
           HttpPost ''https://vpn2.example.com'' request_header
             (Sprintf final_format [''abc123'', ''tok456'']),
           LogCall LevelInfo ''successfullly received response from server'',
           LogCall LevelDebug ''received response'',
           LogCall LevelDebug ''received response from server'',
           LogCall LevelDebug ''unmarshalled final response'',
           LogCall LevelInfo received_msg,
           LogCall LevelInfo ''successfully written authentication details to file''],
        files = [''/tmp/oc.conf'' \<mapsto>
          \<lparr>content =
             ''cookie=sesscookie\<newline>servercert=fp789\<newline># host=https://vpn2.example.com\<newline>'',
           mode = perm_0600\<rparr>]\<rparr>)"
proof -
  let ?w = "\<lparr>trace = [], files = Map.empty\<rparr>"
  let ?t = "''https://vpn2.example.com''"
  let ?ir = "\<lparr>LoginURL = ''https://idp.example.com/login'',
              LoginFinalURL = [], TokenCookieName = ''ssotoken'',
              Opaque = \<lparr>Opaque.Value = ''abc123''\<rparr>\<rparr>"
  let ?resp = "\<lparr>StatusCode = 200, Request_URL = ?t, Body = [], Body_err = None\<rparr>"
  let ?resp2 = "\<lparr>StatusCode = 200, Request_URL = ?t, Body = ''<config-auth/>'',
                 Body_err = None\<rparr>"
  let ?fr = "\<lparr>Cookie = ''sesscookie'', Fingerprint = ''fp789''\<rparr>"
  let ?tr6 = "[LogCall LevelInfo ''Logger initialized'',
           HttpGet ''https://vpn.example.com'',
           LogCall LevelDebug ''configuring VPN request'',
           HttpPost ?t request_header (Sprintf init_format [?t]),
           LogCall LevelInfo ''successfullly received response from server'',
           LogCall LevelDebug ''received response'',
           LogCall LevelDebug ''received response from server'',
           LogCall LevelInfo ''unmarshalled init response'']"
  let ?tr9 = "?tr6 @
          [LogCall LevelInfo waiting_msg,
           PageGoto ''https://idp.example.com/login'',
           ContextCookies, TimeSleep (10 * Millisecond), ContextCookies,
           LogCall LevelInfo received_cookie_msg, BrowserClose]"
  let ?tr10 = "?tr9 @
          [HttpPost ?t request_header (Sprintf final_format [''abc123'', ''tok456'']),
           LogCall LevelInfo ''successfullly received response from server'',
           LogCall LevelDebug ''received response'',
           LogCall LevelDebug ''received response from server'',
           LogCall LevelDebug ''unmarshalled final response'']"
  have sw: "setup_world env0 ?w =
      \<lparr>trace = [LogCall LevelInfo ''Logger initialized''], files = Map.empty\<rparr>"
    by (simp add: setup_world_def env0_calls log_if_error_def slog_def emit_def env0_def)
  have init: "initializationStage env0 (arg_server env0) (setup_world env0 ?w) =
      (Inr (?ir, ?t), \<lparr>trace = ?tr6, files = Map.empty\<rparr>)"
    using initializationStage_ok [of env0 "arg_server env0" ?resp ?resp2 ?ir "setup_world env0 ?w"]
    by (simp add: env0_calls sw del: Sprintf.simps)
  have loop: "poll_loop env0 (TokenCookieName ?ir) 0
      (emit (PageGoto (LoginURL ?ir))
         (slog LevelInfo waiting_msg \<lparr>trace = ?tr6, files = Map.empty\<rparr>)) =
      Some (sso, \<lparr>trace = ?tr9, files = Map.empty\<rparr>)"
    by (simp add: poll_env0 emit_def slog_def del: Sprintf.simps)
  have fin: "finalizationStage env0 ?t (NetworkCookie.Value sso) (Opaque.Value (Opaque ?ir))
      \<lparr>trace = ?tr9, files = Map.empty\<rparr> = (Inr ?fr, \<lparr>trace = ?tr10, files = Map.empty\<rparr>)"
    using finalizationStage_ok [of env0 ?t "''abc123''" "''tok456''" ?resp2 ?fr
        "\<lparr>trace = ?tr9, files = Map.empty\<rparr>"]
    by (simp add: env0_calls sso_def del: Sprintf.simps)
  have wr: "writeOCConfig env0 (Cookie ?fr) (Fingerprint ?fr) ?t (arg_config env0)
      (slog LevelInfo received_msg \<lparr>trace = ?tr10, files = Map.empty\<rparr>) =
      (Inr (),
       \<lparr>trace = ?tr10 @ [LogCall LevelInfo received_msg,
           LogCall LevelInfo ''successfully written authentication details to file''],
        files = [''/tmp/oc.conf'' \<mapsto>
          \<lparr>content =
             ''cookie=sesscookie\<newline>servercert=fp789\<newline># host=https://vpn2.example.com\<newline>'',
           mode = perm_0600\<rparr>]\<rparr>)"
    by (simp add: writeOCConfig_ok env0_calls env0_umask emit_def slog_def del: Sprintf.simps)
  show ?thesis
    unfolding run_def
    by (subst main_written [OF env0_calls(1-4) init loop fin wr]) simp
qed



lemma makePostReq_posts:
  "posts (trace (snd (makePostReq env xmlPayload server w))) =
     posts (trace w) @
     (if http_NewRequest env server = None then [(server, request_header, xmlPayload)] else [])"
  by (simp add: makePostReq_def Let_def split: option.splits sum.splits)

lemma run_posts_header:
  assumes "run env fs = Some (out, w')"
  shows "\<forall>(u, h, b) \<in> set (posts (trace w')). h = request_header"
proof -
  from run_posts [OF assms] consider "posts (trace w') = []"
    | t where "posts (trace w') = [init_post t]"
    | t ir c where "posts (trace w') = [init_post t, final_post t ir c]"
    by blast
  then show ?thesis
  proof cases
    case 1
    then show ?thesis by simp
  next
    case 2
    then show ?thesis by (simp add: init_post_def del: Sprintf.simps)
  next
    case 3
    then show ?thesis by (simp add: init_post_def final_post_def del: Sprintf.simps)
  qed
qed

subsection \<open>The requests of the finalization stage\<close>

lemma finalizationStage_posts:
  "posts (trace (snd (finalizationStage env vpnServer token configHash w))) =
     posts (trace w) @
     (if http_NewRequest env vpnServer = None
      then [(vpnServer, request_header, Sprintf final_format [configHash, token])] else [])"
proof -
  obtain r w1 where m: "makePostReq env (Sprintf final_format [configHash, token]) vpnServer w
      = (r, w1)"
    by (cases "makePostReq env (Sprintf final_format [configHash, token]) vpnServer w")
  from makePostReq_posts [of env "Sprintf final_format [configHash, token]" vpnServer w]
  have "posts (trace w1) = posts (trace w) @
     (if http_NewRequest env vpnServer = None
      then [(vpnServer, request_header, Sprintf final_format [configHash, token])] else [])"
    unfolding m by simp
  then show ?thesis
    by (simp add: finalizationStage_def Let_def m del: Sprintf.simps split: sum.splits)
qed

lemma init_has_version_and_device_id:
  \<open>\<exists>before after. Sprintf init_format [u] = before @ version_and_device_id @ after\<close>
  unfolding Sprintf_init version_and_device_id_def
  by (rule exI [of _
        \<open>''\<newline>'' @
         ''    <config-auth client="vpn" type="init" aggregate-auth-version="2">\<newline>''\<close>],
      rule exI [of _
        \<open>''      <group-select></group-select>\<newline>'' @
         [CHR 0x09, CHR 0x09, CHR 0x09] @ ''<group-access>'' @ u @ ''</group-access>\<newline>'' @
         ''      <capabilities>\<newline>'' @
         ''        <auth-method>single-sign-on-v2</auth-method>\<newline>'' @
         ''      </capabilities>\<newline>'' @
         ''    </config-auth>\<newline>'' @
         [CHR 0x09]\<close>])
     simp

lemma final_has_version_and_device_id:
  \<open>\<exists>before after. Sprintf final_format [configHash, token] =
     before @ version_and_device_id @ after\<close>
  unfolding Sprintf_final version_and_device_id_def
  by (rule exI [of _
        \<open>''\<newline>'' @
         ''    <config-auth client="vpn" type="auth-reply" aggregate-auth-version="2">\<newline>''\<close>],
      rule exI [of _
        \<open>''      <session-token/>\<newline>'' @
         ''      <session-id/>\<newline>'' @
         ''      <opaque is-for="sg">'' @ configHash @ ''</opaque>\<newline>'' @
         ''      <auth>\<newline>'' @
         ''        <sso-token>'' @ token @ ''</sso-token>\<newline>'' @
         ''      </auth>\<newline>'' @
         ''      </config-auth>\<newline>'' @
         ''  ''\<close>])
     simp

subsection \<open>Runs that succeed\<close>

lemma content_update: "(f :: regular_file)\<lparr>content := x\<rparr> = \<lparr>content = x, mode = mode f\<rparr>"
  by (cases f) simp

lemma run_ok:
  assumes handles: "fst (playwright_Run env)" "fst (Firefox_Launch env)"
      "fst (browser_NewContext env)" "fst (context_NewPage env)"
    and get: "http_Get env (arg_server env) = Inr resp"
    and req: "http_NewRequest env (Request_URL resp) = None"
    and init: "client_Do env (Request_URL resp) request_header
                 (Sprintf init_format [Request_URL resp]) = Inr posted"
      "Unmarshal_init env (Body posted) = Inr ir"
    and jar: "\<forall>j<n. token_cookie env (TokenCookieName ir) j = None"
      "token_cookie env (TokenCookieName ir) n = Some c"
    and fin: "client_Do env (Request_URL resp) request_header
                (Sprintf final_format [Opaque.Value (Opaque ir), NetworkCookie.Value c])
                = Inr replied"
      "Unmarshal_final env (Body replied) = Inr fr"
    and fs: "os_fault env (arg_config env) = None"
  shows "run env fs =
     Some (Exit 0,
       \<lparr>trace =
          LogCall LevelInfo ''Logger initialized'' # setup_logs env @
          [HttpGet (arg_server env),
           LogCall LevelDebug ''configuring VPN request'',
           HttpPost (Request_URL resp) request_header (Sprintf init_format [Request_URL resp]),
           LogCall LevelInfo ''successfullly received response from server'',
           LogCall LevelDebug ''received response'',
           LogCall LevelDebug ''received response from server'',
           LogCall LevelInfo ''unmarshalled init response'',
           LogCall LevelInfo waiting_msg,
           PageGoto (LoginURL ir)] @
          waiting env 0 n @ round_events env n @
          [LogCall LevelInfo received_cookie_msg, BrowserClose,
           HttpPost (Request_URL resp) request_header
             (Sprintf final_format [Opaque.Value (Opaque ir), NetworkCookie.Value c]),
           LogCall LevelInfo ''successfullly received response from server'',
           LogCall LevelDebug ''received response'',
           LogCall LevelDebug ''received response from server'',
           LogCall LevelDebug ''unmarshalled final response'',
           LogCall LevelInfo received_msg,
           LogCall LevelInfo ''successfully written authentication details to file''],
        files = fs(arg_config env \<mapsto>
          \<lparr>content = ''cookie='' @ Cookie fr @ ''\<newline>servercert='' @ Fingerprint fr @
                      ''\<newline># host='' @ Request_URL resp @ ''\<newline>'',
           mode = (case fs (arg_config env) of
                     None \<Rightarrow> perm_0600 AND NOT (umask env)
                   | Some f \<Rightarrow> mode f)\<rparr>)\<rparr>)"
proof -
  let ?w = "\<lparr>trace = [], files = fs\<rparr>"
  let ?t = "Request_URL resp"
  let ?tr6 = "LogCall LevelInfo ''Logger initialized'' # setup_logs env @
          [HttpGet (arg_server env),
           LogCall LevelDebug ''configuring VPN request'',
           HttpPost ?t request_header (Sprintf init_format [?t]),
           LogCall LevelInfo ''successfullly received response from server'',
           LogCall LevelDebug ''received response'',
           LogCall LevelDebug ''received response from server'',
           LogCall LevelInfo ''unmarshalled init response'']"
  let ?tr9 = "?tr6 @ [LogCall LevelInfo waiting_msg, PageGoto (LoginURL ir)] @
          waiting env 0 n @ round_events env n @
          [LogCall LevelInfo received_cookie_msg, BrowserClose]"
  let ?tr10 = "?tr9 @
          [HttpPost ?t request_header
             (Sprintf final_format [Opaque.Value (Opaque ir), NetworkCookie.Value c]),
           LogCall LevelInfo ''successfullly received response from server'',
           LogCall LevelDebug ''received response'',
           LogCall LevelDebug ''received response from server'',
           LogCall LevelDebug ''unmarshalled final response'']"
  have sw: "setup_world env ?w =
      \<lparr>trace = LogCall LevelInfo ''Logger initialized'' # setup_logs env, files = fs\<rparr>"
    by (rule world.equality) (simp_all add: trace_setup_world)
  have i: "initializationStage env (arg_server env) (setup_world env ?w) =
      (Inr (ir, ?t), \<lparr>trace = ?tr6, files = fs\<rparr>)"
    by (simp add: initializationStage_ok [OF get req init] sw del: Sprintf.simps)
  have l: "poll_loop env (TokenCookieName ir) 0
      (emit (PageGoto (LoginURL ir)) (slog LevelInfo waiting_msg \<lparr>trace = ?tr6, files = fs\<rparr>)) =
      Some (c, \<lparr>trace = ?tr9, files = fs\<rparr>)"
    using jar by (subst poll_loop_found [where n = n and c = c])
      (simp_all add: emit_def slog_def del: Sprintf.simps)
  have f: "finalizationStage env ?t (NetworkCookie.Value c) (Opaque.Value (Opaque ir))
      \<lparr>trace = ?tr9, files = fs\<rparr> = (Inr fr, \<lparr>trace = ?tr10, files = fs\<rparr>)"
    by (simp add: finalizationStage_ok [OF req fin] del: Sprintf.simps)
  have wr: "writeOCConfig env (Cookie fr) (Fingerprint fr) ?t (arg_config env)
      (slog LevelInfo received_msg \<lparr>trace = ?tr10, files = fs\<rparr>) =
      (Inr (),
       \<lparr>trace = ?tr10 @ [LogCall LevelInfo received_msg,
           LogCall LevelInfo ''successfully written authentication details to file''],
        files = fs(arg_config env \<mapsto>
          \<lparr>content = ''cookie='' @ Cookie fr @ ''\<newline>servercert='' @ Fingerprint fr @
                      ''\<newline># host='' @ Request_URL resp @ ''\<newline>'',
           mode = (case fs (arg_config env) of
                     None \<Rightarrow> perm_0600 AND NOT (umask env)
                   | Some f \<Rightarrow> mode f)\<rparr>)\<rparr>)"
    by (simp add: writeOCConfig_ok [OF fs] emit_def slog_def content_update del: Sprintf.simps
          split: option.splits)
  show ?thesis
    unfolding run_def
    by (subst main_written [OF handles i l f wr]) (simp del: Sprintf.simps)
qed


subsection \<open>Responses\<close>

lemma makePostReq_ok:
  assumes "http_NewRequest env server = None"
    "client_Do env server request_header xmlPayload = Inr resp"
  shows "makePostReq env xmlPayload server w =
     (Inr (Body resp),
      w\<lparr>trace := trace w @
        [HttpPost server request_header xmlPayload,
         LogCall LevelInfo ''successfullly received response from server'',
         LogCall LevelDebug ''received response'']\<rparr>)"
  using assms by (simp add: makePostReq_def Let_def emit_def slog_def)

lemma makePostReq_with_post_status:
  "makePostReq (with_post_status s e env) xmlPayload server w =
     makePostReq env xmlPayload server w"
  by (cases "client_Do env server request_header xmlPayload")
     (simp_all add: makePostReq_def with_post_status_def Let_def split: option.splits)

lemma makePostReq_with_get_response:
  "makePostReq (with_get_response s b e env) xmlPayload server w =
     makePostReq env xmlPayload server w"
  by (simp add: makePostReq_def with_get_response_def split: option.splits)

lemma initializationStage_with_get_response:
  "initializationStage (with_get_response s b e env) url w = initializationStage env url w"
proof (cases "http_Get env url")
  case (Inl err)
  then show ?thesis
    by (simp add: initializationStage_def with_get_response_def Let_def)
next
  case (Inr resp)
  then have "http_Get (with_get_response s b e env) url =
      Inr (resp\<lparr>StatusCode := s, Body := b, Body_err := e\<rparr>)"
    by (simp add: with_get_response_def)
  moreover have "Unmarshal_init (with_get_response s b e env) = Unmarshal_init env"
    by (simp add: with_get_response_def)
  ultimately show ?thesis
    using Inr
    by (simp add: initializationStage_def Let_def makePostReq_with_get_response
          del: Sprintf.simps split: sum.splits prod.splits)
qed

lemma env_500_calls:
  "http_NewRequest env_500 u = None"
  "client_Do env_500 u h b =
     Inr \<lparr>StatusCode = 500, Request_URL = u, Body = ''<html>Inter'',
          Body_err = Some (Error ''unexpected EOF'')\<rparr>"
  "http_Get env_500 u = Inr \<lparr>StatusCode = 200, Request_URL = ''https://vpn2.example.com'',
                          Body = [], Body_err = None\<rparr>"
  "Unmarshal_init env_500 b = Inr \<lparr>LoginURL = ''https://idp.example.com/login'',
                                    LoginFinalURL = [], TokenCookieName = ''ssotoken'',
                                    Opaque = \<lparr>Opaque.Value = ''abc123''\<rparr>\<rparr>"
  by (simp_all add: env_500_def env0_def)

subsection \<open>The first rounds of the loop\<close>

lemma poll_loop_rounds:
  "poll_loop env name i w =
     (case poll_rounds env name n i w of
        (Some cookie, w') \<Rightarrow> Some (cookie, w')
      | (None, w') \<Rightarrow> poll_loop env name (i + n) w')"
proof (induction n arbitrary: i w)
  case 0
  show ?case by simp
next
  case (Suc n)
  obtain r w1 where round: "poll_round env name i w = (r, w1)"
    by (cases "poll_round env name i w")
  show ?case
  proof (cases r)
    case None
    obtain r2 w2 where rest: "poll_rounds env name n (Suc i) w1 = (r2, w2)"
      by (cases "poll_rounds env name n (Suc i) w1")
    have "poll_loop env name i w = poll_loop env name (Suc i) w1"
      by (subst poll_loop.simps) (simp add: round None)
    also have "\<dots> = (case r2 of Some cookie \<Rightarrow> Some (cookie, w2)
                      | None \<Rightarrow> poll_loop env name (Suc i + n) w2)"
      using Suc.IH [of "Suc i" w1] by (simp add: rest split: option.splits)
    finally show ?thesis
      by (simp add: round None rest split: option.splits)
  next
    case (Some c)
    have "poll_loop env name i w = Some (c, w1)"
      by (subst poll_loop.simps) (simp add: round Some)
    then show ?thesis
      by (simp add: round Some)
  qed
qed

lemma poll_rounds_miss:
  assumes "\<forall>j. i \<le> j \<and> j < i + n \<longrightarrow> token_cookie env name j = None"
  shows "poll_rounds env name n i w = (None, w\<lparr>trace := trace w @ waiting env i (i + n)\<rparr>)"
  using assms
proof (induction n arbitrary: i w)
  case 0
  show ?case by simp
next
  case (Suc n)
  have miss: "token_cookie env name i = None"
    using Suc.prems by simp
  have rest: "\<forall>j. Suc i \<le> j \<and> j < Suc i + n \<longrightarrow> token_cookie env name j = None"
    using Suc.prems by simp
  have "waiting env i (i + Suc n) =
          round_events env i @ [TimeSleep (10 * Millisecond)] @ waiting env (Suc i) (Suc i + n)"
    by (simp add: waiting_step)
  then show ?case
    by (simp add: poll_round_miss [OF miss] Suc.IH [OF rest])
qed

lemma waiting_explicit:
  "waiting env i n =
     concat (map (\<lambda>j. ContextCookies #
                    (if snd (context_Cookies env j) \<noteq> None
                     then [LogCall LevelError ''could not get cookies from browser context'']
                     else []) @
                    [TimeSleep 10000000]) [i..<n])"
  by (simp add: waiting_def round_events_def Millisecond_def)

lemma reads_waiting: "length [e \<leftarrow> waiting env i (i + n). e = ContextCookies] = n"
proof (induction n arbitrary: i)
  case 0
  show ?case by simp
next
  case (Suc n)
  have "waiting env i (i + Suc n) =
          round_events env i @ [TimeSleep (10 * Millisecond)] @ waiting env (Suc i) (Suc i + n)"
    by (simp add: waiting_step)
  then show ?case
    using Suc.IH [of "Suc i"] by (simp add: round_events_def)
qed

section \<open>The config writer: content and permissions\<close>

text \<open>
  C5. For every cookie, fingerprint and server string, a write that meets no fault leaves
  in the output file exactly the three lines \<open>cookie=<cookie>\<close>, \<open>servercert=<fingerprint>\<close>
  and \<open># host=<server>\<close>, each ended by a newline; for \<open>C1\<close>, \<open>F1\<close> and
  \<open>https://vpn.example.com\<close> the file is
  \<open>cookie=C1\nservercert=F1\n# host=https://vpn.example.com\n\<close>.
\<close>

theorem writeOCConfig_three_lines:
  assumes "os_fault env ocFile = None"
  shows "fst (writeOCConfig env cookie fingerprint server ocFile w) = Inr () \<and>
         map_option content
           (files (snd (writeOCConfig env cookie fingerprint server ocFile w)) ocFile) =
           Some (''cookie='' @ cookie @ ''\<newline>'' @
                 ''servercert='' @ fingerprint @ ''\<newline>'' @
                 ''# host='' @ server @ ''\<newline>'') \<and>
         map_option content
           (files (snd (writeOCConfig env ''C1'' ''F1'' ''https://vpn.example.com'' ocFile w))
              ocFile) =
           Some ''cookie=C1\<newline>servercert=F1\<newline># host=https://vpn.example.com\<newline>''"
  by (simp add: writeOCConfig_ok [OF assms])

theorem writeOCConfig_three_lines_witness:
  "os_fault env0 ''/tmp/oc.conf'' = None \<and>
   fst (writeOCConfig env0 ''sesscookie'' ''fp789'' ''https://vpn2.example.com''
          ''/tmp/oc.conf'' w0) = Inr () \<and>
   map_option content
     (files (snd (writeOCConfig env0 ''sesscookie'' ''fp789'' ''https://vpn2.example.com''
                    ''/tmp/oc.conf'' w0)) ''/tmp/oc.conf'') =
     Some ''cookie=sesscookie\<newline>servercert=fp789\<newline># host=https://vpn2.example.com\<newline>''"
proof -
  have h: "os_fault env0 ''/tmp/oc.conf'' = None"
    by (simp add: env0_def)
  show ?thesis
    using h writeOCConfig_three_lines [OF h, of "''sesscookie''" "''fp789''"
        "''https://vpn2.example.com''" w0]
    by simp
qed



text \<open>
  C9. When the output path names an existing file, a write that meets no fault replaces
  the whole content and leaves the mode as it was, so a world-readable file stays
  world-readable; the mode 0600 enters only when the file is created. No other file
  changes.
\<close>

theorem writeOCConfig_existing_file:
  "(files w ocFile = Some f \<and> os_fault env ocFile = None \<longrightarrow>
      files (snd (writeOCConfig env cookie fingerprint server ocFile w)) ocFile =
        Some \<lparr>content = ''cookie='' @ cookie @ ''\<newline>servercert='' @ fingerprint @
                           ''\<newline># host='' @ server @ ''\<newline>'',
              mode = mode f\<rparr>) \<and>
   (files w ocFile = None \<and> os_fault env ocFile = None \<longrightarrow>
      map_option mode (files (snd (writeOCConfig env cookie fingerprint server ocFile w)) ocFile)
        = Some (perm_0600 AND NOT (umask env))) \<and>
   (p \<noteq> ocFile \<longrightarrow>
      files (snd (writeOCConfig env cookie fingerprint server ocFile w)) p = files w p)"
proof (intro conjI impI)
  assume "files w ocFile = Some f \<and> os_fault env ocFile = None"
  then show "files (snd (writeOCConfig env cookie fingerprint server ocFile w)) ocFile =
        Some \<lparr>content = ''cookie='' @ cookie @ ''\<newline>servercert='' @ fingerprint @
                           ''\<newline># host='' @ server @ ''\<newline>'',
              mode = mode f\<rparr>"
    by (simp add: writeOCConfig_ok)
next
  assume "files w ocFile = None \<and> os_fault env ocFile = None"
  then show "map_option mode
      (files (snd (writeOCConfig env cookie fingerprint server ocFile w)) ocFile)
        = Some (perm_0600 AND NOT (umask env))"
    by (simp add: writeOCConfig_ok)
next
  assume "p \<noteq> ocFile"
  then show "files (snd (writeOCConfig env cookie fingerprint server ocFile w)) p = files w p"
    by (auto simp: writeOCConfig_def os_WriteFile_def Let_def simp del: Sprintf.simps
           split: option.splits write_fault.splits)
qed

theorem writeOCConfig_existing_file_witness:
  "files w_existing ''/tmp/oc.conf'' = Some \<lparr>content = ''old content'', mode = perm_0644\<rparr> \<and>
   os_fault env0 ''/tmp/oc.conf'' = None \<and>
   files (snd (writeOCConfig env0 ''sesscookie'' ''fp789'' ''https://vpn2.example.com''
                 ''/tmp/oc.conf'' w_existing)) ''/tmp/oc.conf'' =
     Some \<lparr>content =
             ''cookie=sesscookie\<newline>servercert=fp789\<newline># host=https://vpn2.example.com\<newline>'',
           mode = perm_0644\<rparr> \<and>
   perm_0644 AND 4 \<noteq> 0 \<and>
   files w0 ''/tmp/oc.conf'' = None \<and>
   map_option mode
     (files (snd (writeOCConfig env0 ''sesscookie'' ''fp789'' ''https://vpn2.example.com''
                    ''/tmp/oc.conf'' w0)) ''/tmp/oc.conf'') = Some perm_0600 \<and>
   ''/etc/passwd'' \<noteq> ''/tmp/oc.conf'' \<and>
   files (snd (writeOCConfig env0 ''sesscookie'' ''fp789'' ''https://vpn2.example.com''
                 ''/tmp/oc.conf'' w_existing)) ''/etc/passwd'' = files w_existing ''/etc/passwd''"
proof -
  have h: "files w_existing ''/tmp/oc.conf'' =
             Some \<lparr>content = ''old content'', mode = perm_0644\<rparr> \<and>
           os_fault env0 ''/tmp/oc.conf'' = None"
    by (simp add: env0_def w_existing_def)
  have h0: "files w0 ''/tmp/oc.conf'' = None \<and> os_fault env0 ''/tmp/oc.conf'' = None"
    by (simp add: env0_def w0_def)
  have m: "perm_0644 AND 4 \<noteq> 0" "perm_0600 AND NOT (umask env0) = perm_0600"
    by (simp_all add: perm_0644_def perm_0600_def env0_def)
  have p: "''/etc/passwd'' \<noteq> ''/tmp/oc.conf''"
    by simp
  show ?thesis
    using h h0 m p
      writeOCConfig_existing_file [of w_existing "''/tmp/oc.conf''"
        "\<lparr>content = ''old content'', mode = perm_0644\<rparr>" env0 "''sesscookie''" "''fp789''"
        "''https://vpn2.example.com''" "''/etc/passwd''"]
      writeOCConfig_existing_file [of w0 "''/tmp/oc.conf''"
        "\<lparr>content = ''old content'', mode = perm_0644\<rparr>" env0 "''sesscookie''" "''fp789''"
        "''https://vpn2.example.com''" "''/etc/passwd''"]
    by simp
qed

section \<open>The login wait\<close>

text \<open>
  C3. When the polling loop returns a cookie, it is the first cookie, in the order of the
  jar, whose name equals the token cookie's name, taken from the first jar that holds
  such a cookie; no earlier jar holds one, whatever other cookies it holds. The browser
  is closed in the round of the match, after the log line and before any further read
  of the jar or sleep, and only then. The loop does return when some jar holds such a
  cookie.
\<close>

theorem poll_loop_first_match:
  "(poll_loop env name i w = Some (c, w') \<longrightarrow>
      (\<exists>n k. i \<le> n \<and>
         (\<forall>j. i \<le> j \<and> j < n \<longrightarrow> (\<forall>x \<in> set (fst (context_Cookies env j)). Name x \<noteq> name)) \<and>
         k < length (fst (context_Cookies env n)) \<and>
         fst (context_Cookies env n) ! k = c \<and> Name c = name \<and>
         (\<forall>l<k. Name (fst (context_Cookies env n) ! l) \<noteq> name) \<and>
         trace w' = trace w @ waiting env i n @ round_events env n @
           [LogCall LevelInfo received_cookie_msg, BrowserClose] \<and>
         BrowserClose \<notin> set (waiting env i n @ round_events env n))) \<and>
   ((\<exists>n\<ge>i. \<exists>x \<in> set (fst (context_Cookies env n)). Name x = name) \<longrightarrow>
      poll_loop env name i w \<noteq> None)"
proof (intro conjI impI)
  assume "poll_loop env name i w = Some (c, w')"
  from poll_loop_Some [OF this] obtain n where n: "i \<le> n"
    "\<forall>j. i \<le> j \<and> j < n \<longrightarrow> token_cookie env name j = None"
    "token_cookie env name n = Some c"
    "trace w' = trace w @ waiting env i n @ round_events env n @
       [LogCall LevelInfo received_cookie_msg, BrowserClose]"
    by blast
  from n(3) obtain k where k: "k < length (fst (context_Cookies env n))"
    "fst (context_Cookies env n) ! k = c" "Name c = name"
    "\<forall>l<k. Name (fst (context_Cookies env n) ! l) \<noteq> name"
    unfolding token_cookie_Some_iff by blast
  have "\<forall>j. i \<le> j \<and> j < n \<longrightarrow> (\<forall>x \<in> set (fst (context_Cookies env j)). Name x \<noteq> name)"
    using n(2) unfolding token_cookie_None_iff .
  moreover have "BrowserClose \<notin> set (waiting env i n @ round_events env n)"
    by (simp add: BrowserClose_notin_round BrowserClose_notin_waiting)
  ultimately show "\<exists>n k. i \<le> n \<and>
         (\<forall>j. i \<le> j \<and> j < n \<longrightarrow> (\<forall>x \<in> set (fst (context_Cookies env j)). Name x \<noteq> name)) \<and>
         k < length (fst (context_Cookies env n)) \<and>
         fst (context_Cookies env n) ! k = c \<and> Name c = name \<and>
         (\<forall>l<k. Name (fst (context_Cookies env n) ! l) \<noteq> name) \<and>
         trace w' = trace w @ waiting env i n @ round_events env n @
           [LogCall LevelInfo received_cookie_msg, BrowserClose] \<and>
         BrowserClose \<notin> set (waiting env i n @ round_events env n)"
    using n(1,4) k by blast
next
  assume "\<exists>n\<ge>i. \<exists>x \<in> set (fst (context_Cookies env n)). Name x = name"
  then obtain m where m: "i \<le> m" "token_cookie env name m \<noteq> None"
    unfolding token_cookie_None_iff by blast
  define n where "n = (LEAST k. i \<le> k \<and> token_cookie env name k \<noteq> None)"
  have n: "i \<le> n \<and> token_cookie env name n \<noteq> None"
    unfolding n_def by (rule LeastI [of _ m]) (simp add: m)
  have least: "\<forall>j. i \<le> j \<and> j < n \<longrightarrow> token_cookie env name j = None"
    unfolding n_def using not_less_Least by blast
  from n obtain c where "token_cookie env name n = Some c" by auto
  from poll_loop_found [OF _ least this, of w] n
  show "poll_loop env name i w \<noteq> None" by simp
qed

theorem poll_loop_first_match_witness:
  "poll_loop env0 ''ssotoken'' 0 w0 =
     Some (sso, w0\<lparr>trace := trace w0 @
       [ContextCookies, TimeSleep (10 * Millisecond), ContextCookies,
        LogCall LevelInfo received_cookie_msg, BrowserClose]\<rparr>) \<and>
   (\<exists>n k. (\<forall>j. 0 \<le> j \<and> j < n \<longrightarrow>
              (\<forall>x \<in> set (fst (context_Cookies env0 j)). Name x \<noteq> ''ssotoken'')) \<and>
      k < length (fst (context_Cookies env0 n)) \<and>
      fst (context_Cookies env0 n) ! k = sso \<and> Name sso = ''ssotoken'' \<and>
      (\<forall>l<k. Name (fst (context_Cookies env0 n) ! l) \<noteq> ''ssotoken'')) \<and>
   (\<exists>n\<ge>0. \<exists>x \<in> set (fst (context_Cookies env0 n)). Name x = ''ssotoken'') \<and>
   poll_loop env0 ''ssotoken'' 0 w0 \<noteq> None"
proof -
  have h: "poll_loop env0 ''ssotoken'' 0 w0 =
     Some (sso, w0\<lparr>trace := trace w0 @
       [ContextCookies, TimeSleep (10 * Millisecond), ContextCookies,
        LogCall LevelInfo received_cookie_msg, BrowserClose]\<rparr>)"
    by (rule poll_env0)
  have e: "\<exists>n\<ge>0. \<exists>x \<in> set (fst (context_Cookies env0 n)). Name x = ''ssotoken''"
    by (rule exI [of _ 1]) (simp add: env0_def sso_def)
  show ?thesis
    using h e poll_loop_first_match [of env0 "''ssotoken''" 0 w0 sso
      "w0\<lparr>trace := trace w0 @
       [ContextCookies, TimeSleep (10 * Millisecond), ContextCookies,
        LogCall LevelInfo received_cookie_msg, BrowserClose]\<rparr>"]
    by blast
qed


text \<open>
  C6. The login wait has no timeout. The first \<open>n\<close> rounds of the loop are a prefix of it:
  the loop returns what they found, or goes on after them. When no jar ever holds a
  cookie with the token cookie's name, the loop does not return, and its first \<open>n\<close>
  rounds, for every \<open>n\<close>, find nothing and do exactly this: read the jar, log the error of
  the read if there is one, sleep ten milliseconds (10000000 ns), \<open>n\<close> times over, so
  \<open>n\<close> reads and \<open>n\<close> sleeps of that length, one after each read, and no change to the
  files. A run of the program that gets as far as the loop then never ends.
\<close>

theorem login_wait_never_ends:
  "poll_loop env name i w =
     (case poll_rounds env name k i w of
        (Some cookie, w') \<Rightarrow> Some (cookie, w')
      | (None, w') \<Rightarrow> poll_loop env name (i + k) w') \<and>
   ((\<forall>j. \<forall>x \<in> set (fst (context_Cookies env j)). Name x \<noteq> name) \<longrightarrow>
     poll_loop env name 0 w = None \<and>
     (\<forall>n. fst (poll_rounds env name n 0 w) = None \<and>
          trace (snd (poll_rounds env name n 0 w)) =
            trace w @
            concat (map (\<lambda>j. ContextCookies #
                           (if snd (context_Cookies env j) \<noteq> None
                            then [LogCall LevelError
                                    ''could not get cookies from browser context'']
                            else []) @
                           [TimeSleep 10000000]) [0..<n]) \<and>
          sleeps (trace (snd (poll_rounds env name n 0 w))) =
            sleeps (trace w) @ replicate n 10000000 \<and>
          length [e \<leftarrow> trace (snd (poll_rounds env name n 0 w)). e = ContextCookies] =
            length [e \<leftarrow> trace w. e = ContextCookies] + n \<and>
          files (snd (poll_rounds env name n 0 w)) = files w) \<and>
     (fst (playwright_Run env) \<and> fst (Firefox_Launch env) \<and> fst (browser_NewContext env) \<and>
      fst (context_NewPage env) \<and>
      http_Get env (arg_server env) = Inr resp \<and>
      http_NewRequest env (Request_URL resp) = None \<and>
      client_Do env (Request_URL resp) request_header
        (Sprintf init_format [Request_URL resp]) = Inr posted \<and>
      Unmarshal_init env (Body posted) = Inr ir \<and> TokenCookieName ir = name \<longrightarrow>
      run env fs = None))"
proof (intro impI conjI allI)
  show "poll_loop env name i w =
     (case poll_rounds env name k i w of
        (Some cookie, w') \<Rightarrow> Some (cookie, w')
      | (None, w') \<Rightarrow> poll_loop env name (i + k) w')"
    by (rule poll_loop_rounds)
next
  assume never: "\<forall>j. \<forall>x \<in> set (fst (context_Cookies env j)). Name x \<noteq> name"
  then have none: "\<And>j. token_cookie env name j = None"
    by (simp add: token_cookie_None_iff)
  show loop: "poll_loop env name 0 w = None" for w
    by (rule poll_loop_never) (simp add: none)
  have rounds: "poll_rounds env name n 0 w = (None, w\<lparr>trace := trace w @ waiting env 0 n\<rparr>)"
    for n
    using poll_rounds_miss [of 0 n env name w] by (simp add: none)
  show "fst (poll_rounds env name n 0 w) = None" for n
    by (simp add: rounds)
  show "trace (snd (poll_rounds env name n 0 w)) =
            trace w @
            concat (map (\<lambda>j. ContextCookies #
                           (if snd (context_Cookies env j) \<noteq> None
                            then [LogCall LevelError
                                    ''could not get cookies from browser context'']
                            else []) @
                           [TimeSleep 10000000]) [0..<n])" for n
    by (simp only: rounds snd_conv waiting_explicit [symmetric]) simp
  show "sleeps (trace (snd (poll_rounds env name n 0 w))) =
            sleeps (trace w) @ replicate n 10000000" for n
    using sleeps_waiting [of env 0 n] by (simp add: rounds)
  show "length [e \<leftarrow> trace (snd (poll_rounds env name n 0 w)). e = ContextCookies] =
            length [e \<leftarrow> trace w. e = ContextCookies] + n" for n
    using reads_waiting [of env 0 n] by (simp add: rounds)
  show "files (snd (poll_rounds env name n 0 w)) = files w" for n
    by (simp add: rounds)
  assume "fst (playwright_Run env) \<and> fst (Firefox_Launch env) \<and> fst (browser_NewContext env) \<and>
      fst (context_NewPage env) \<and>
      http_Get env (arg_server env) = Inr resp \<and>
      http_NewRequest env (Request_URL resp) = None \<and>
      client_Do env (Request_URL resp) request_header
        (Sprintf init_format [Request_URL resp]) = Inr posted \<and>
      Unmarshal_init env (Body posted) = Inr ir \<and> TokenCookieName ir = name"
  then show "run env fs = None"
    unfolding run_def
    by (intro main_never_ends [where ir = ir]) (auto simp: initializationStage_ok loop)
qed

theorem login_wait_never_ends_witness:
  "(\<forall>j. ''ssotoken'' \<notin> Name ` set (fst (context_Cookies env_never j))) \<and>
   poll_loop env_never ''ssotoken'' 0 w0 = None \<and>
   poll_rounds env_never ''ssotoken'' 2 0 w0 =
     (None,
      \<lparr>trace = [ContextCookies, TimeSleep 10000000, ContextCookies, TimeSleep 10000000],
       files = Map.empty\<rparr>) \<and>
   sleeps (trace (snd (poll_rounds env_never ''ssotoken'' 2 0 w0))) = [10000000, 10000000] \<and>
   run env_never Map.empty = None"
proof -
  have never: "\<forall>j. \<forall>x \<in> set (fst (context_Cookies env_never j)). Name x \<noteq> ''ssotoken''"
    by (simp add: env_never_def decoy_def)
  have ready: "fst (playwright_Run env_never) \<and> fst (Firefox_Launch env_never) \<and>
      fst (browser_NewContext env_never) \<and> fst (context_NewPage env_never) \<and>
      http_Get env_never (arg_server env_never) =
        Inr \<lparr>StatusCode = 200, Request_URL = ''https://vpn2.example.com'',
             Body = [], Body_err = None\<rparr> \<and>
      http_NewRequest env_never ''https://vpn2.example.com'' = None \<and>
      client_Do env_never ''https://vpn2.example.com'' request_header
        (Sprintf init_format [''https://vpn2.example.com'']) =
        Inr \<lparr>StatusCode = 200, Request_URL = ''https://vpn2.example.com'',
             Body = ''<config-auth/>'', Body_err = None\<rparr> \<and>
      Unmarshal_init env_never ''<config-auth/>'' =
        Inr \<lparr>LoginURL = ''https://idp.example.com/login'', LoginFinalURL = [],
             TokenCookieName = ''ssotoken'', Opaque = \<lparr>Opaque.Value = ''abc123''\<rparr>\<rparr>"
    by (simp add: env_never_def env0_def del: Sprintf.simps)
  have quiet: "\<And>j. snd (context_Cookies env_never j) = None"
    by (simp add: env_never_def)
  note inst = login_wait_never_ends [where env = env_never and name = "''ssotoken''"
      and w = w0 and i = 0 and k = 0 and fs = Map.empty
      and resp = "\<lparr>StatusCode = 200, Request_URL = ''https://vpn2.example.com'',
             Body = [], Body_err = None\<rparr>"
      and posted = "\<lparr>StatusCode = 200, Request_URL = ''https://vpn2.example.com'',
             Body = ''<config-auth/>'', Body_err = None\<rparr>"
      and ir = "\<lparr>LoginURL = ''https://idp.example.com/login'', LoginFinalURL = [],
             TokenCookieName = ''ssotoken'', Opaque = \<lparr>Opaque.Value = ''abc123''\<rparr>\<rparr>",
      THEN conjunct2, THEN mp, OF never]
  note loop = inst [THEN conjunct1]
  note rounds = inst [THEN conjunct2, THEN conjunct1, THEN spec, where x = 2]
  from inst [THEN conjunct2, THEN conjunct2] ready
  have ends: "run env_never Map.empty = None"
    by (simp del: Sprintf.simps)
  have up: "[0..<2] = [0, Suc 0]"
    by (simp add: numeral_2_eq_2 upt_conv_Cons)
  from rounds have tr: "trace (snd (poll_rounds env_never ''ssotoken'' 2 0 w0)) =
      [ContextCookies, TimeSleep 10000000, ContextCookies, TimeSleep 10000000]"
    and none: "fst (poll_rounds env_never ''ssotoken'' 2 0 w0) = None"
    and fl: "files (snd (poll_rounds env_never ''ssotoken'' 2 0 w0)) = Map.empty"
    and sl: "sleeps (trace (snd (poll_rounds env_never ''ssotoken'' 2 0 w0))) =
      [10000000, 10000000]"
    by (simp_all add: up quiet w0_def numeral_2_eq_2)
  have "poll_rounds env_never ''ssotoken'' 2 0 w0 =
     (None,
      \<lparr>trace = [ContextCookies, TimeSleep 10000000, ContextCookies, TimeSleep 10000000],
       files = Map.empty\<rparr>)"
    by (rule prod_eqI) (simp_all add: none tr fl)
  moreover
  have "\<forall>j. ''ssotoken'' \<notin> Name ` set (fst (context_Cookies env_never j))"
    by (simp add: env_never_def decoy_def)
  ultimately show ?thesis
    using loop ends sl by simp
qed

section \<open>The requests to the gateway\<close>

text \<open>
  C7. Whenever the gateway client sends a POST, the request carries the header built from
  the map \<open>headers\<close>, in whatever order the map is traversed: exactly seven fields, which
  \<open>Header.Get\<close> reads as \<open>User-Agent: AnyConnect Linux_64 4.7.00136\<close>, \<open>Accept: */*\<close>,
  \<open>Accept-Encoding: identity\<close>, \<open>X-Transcend-Version: 1\<close>, \<open>X-Aggregate-Auth: 1\<close>,
  \<open>X-Support-HTTP-Auth: true\<close> and \<open>Content-Type: application/x-www-form-urlencoded\<close>,
  while the body is the XML payload it was given. Every POST of every run that ends,
  in the initialization and in the finalization stage, carries this header.
\<close>

theorem makePostReq_header_set:
  "(http_NewRequest env server = None \<longrightarrow>
      posts (trace (snd (makePostReq env xmlPayload server w))) =
        posts (trace w) @ [(server, request_header, xmlPayload)]) \<and>
   (mset kvs = mset headers \<longrightarrow> request_header_of kvs = request_header) \<and>
   request_header =
     map_of
       [(''User-Agent'', [''AnyConnect Linux_64 4.7.00136'']),
        (''Accept'', [''*/*'']),
        (''Accept-Encoding'', [''identity'']),
        (''X-Transcend-Version'', [''1'']),
        (''X-Aggregate-Auth'', [''1'']),
        (''X-Support-Http-Auth'', [''true'']),
        (''Content-Type'', [''application/x-www-form-urlencoded''])] \<and>
   Header_Get request_header ''User-Agent'' = ''AnyConnect Linux_64 4.7.00136'' \<and>
   Header_Get request_header ''Accept'' = ''*/*'' \<and>
   Header_Get request_header ''Accept-Encoding'' = ''identity'' \<and>
   Header_Get request_header ''X-Transcend-Version'' = ''1'' \<and>
   Header_Get request_header ''X-Aggregate-Auth'' = ''1'' \<and>
   Header_Get request_header ''X-Support-HTTP-Auth'' = ''true'' \<and>
   Header_Get request_header ''Content-Type'' = ''application/x-www-form-urlencoded'' \<and>
   (run env fs = Some (out, w') \<longrightarrow>
      (\<forall>(u, h, b) \<in> set (posts (trace w')). h = request_header))"
proof (intro conjI impI)
  show "posts (trace (snd (makePostReq env xmlPayload server w))) =
        posts (trace w) @ [(server, request_header, xmlPayload)]"
    if "http_NewRequest env server = None"
    using that by (simp add: makePostReq_posts)
  show "request_header_of kvs = request_header" if "mset kvs = mset headers"
    using that by (rule request_header_of_perm)
  show "request_header =
     map_of
       [(''User-Agent'', [''AnyConnect Linux_64 4.7.00136'']),
        (''Accept'', [''*/*'']),
        (''Accept-Encoding'', [''identity'']),
        (''X-Transcend-Version'', [''1'']),
        (''X-Aggregate-Auth'', [''1'']),
        (''X-Support-Http-Auth'', [''true'']),
        (''Content-Type'', [''application/x-www-form-urlencoded''])]"
    by (rule request_header_eq)
  show "\<forall>(u, h, b) \<in> set (posts (trace w')). h = request_header"
    if "run env fs = Some (out, w')"
    using that by (rule run_posts_header)
qed (simp_all add: request_header_Get)


theorem makePostReq_header_set_witness:
  "http_NewRequest env0 ''https://vpn2.example.com'' = None \<and>
   posts (trace (snd (makePostReq env0 ''<config-auth/>'' ''https://vpn2.example.com'' w0))) =
     [(''https://vpn2.example.com'', request_header, ''<config-auth/>'')] \<and>
   mset (rev headers) = mset headers \<and>
   request_header_of (rev headers) = request_header \<and>
   (\<exists>w'. run env0 Map.empty = Some (Exit 0, w') \<and>
      map (\<lambda>(u, h, b). h) (posts (trace w')) = [request_header, request_header])"
proof -
  let ?w = "snd (the (run env0 Map.empty))"
  have h: "http_NewRequest env0 ''https://vpn2.example.com'' = None"
    by (simp add: env0_calls)
  have p: "mset (rev headers) = mset headers"
    by simp
  have r: "run env0 Map.empty = Some (Exit 0, ?w)"
    by (simp add: run_env0)
  note inst = makePostReq_header_set [of env0 "''https://vpn2.example.com''" "''<config-auth/>''"
      w0 "rev headers" Map.empty "Exit 0" ?w]
  note a = inst [THEN conjunct1]
  note b = inst [THEN conjunct2, THEN conjunct1]
  note c = inst [THEN conjunct2, THEN conjunct2, THEN conjunct2, THEN conjunct2, THEN conjunct2, THEN conjunct2, THEN conjunct2, THEN conjunct2, THEN conjunct2, THEN conjunct2]
  from c r have "\<forall>(u, h, b) \<in> set (posts (trace ?w)). h = request_header" ..
  then have "map (\<lambda>(u, h, b). h) (posts (trace ?w)) = [request_header, request_header]"
    by (simp add: run_env0 del: Sprintf.simps)
  with r have "\<exists>w'. run env0 Map.empty = Some (Exit 0, w') \<and>
      map (\<lambda>(u, h, b). h) (posts (trace w')) = [request_header, request_header]"
    by (intro exI [of _ ?w] conjI)
  moreover from a h
  have "posts (trace (snd (makePostReq env0 ''<config-auth/>'' ''https://vpn2.example.com'' w0))) =
     [(''https://vpn2.example.com'', request_header, ''<config-auth/>'')]"
    by (simp add: w0_def)
  moreover from b p have "request_header_of (rev headers) = request_header" ..
  ultimately show ?thesis
    using h p by (intro conjI)
qed

text \<open>
  C2. In every run that ends, each POST goes to the URL that the initial GET on the
  \<open>--server\<close> argument resolved to. A run that ends with status 0 has sent exactly two
  POSTs, the init request and then the auth-reply request, both to that URL, and the
  output file holds that URL in its \<open># host=\<close> line.
\<close>

theorem resolved_url_used_throughout:
  "(run env fs = Some (out, w') \<longrightarrow>
      (\<forall>(u, h, b) \<in> set (posts (trace w')).
         \<exists>resp. http_Get env (arg_server env) = Inr resp \<and> u = Request_URL resp)) \<and>
   (run env fs = Some (Exit 0, w') \<longrightarrow>
      (\<exists>resp opq token cookie fingerprint.
         http_Get env (arg_server env) = Inr resp \<and>
         posts (trace w') =
           [(Request_URL resp, request_header, Sprintf init_format [Request_URL resp]),
            (Request_URL resp, request_header, Sprintf final_format [opq, token])] \<and>
         map_option content (files w' (arg_config env)) =
           Some (''cookie='' @ cookie @ ''\<newline>servercert='' @ fingerprint @
                 ''\<newline># host='' @ Request_URL resp @ ''\<newline>'')))"
proof (intro conjI impI)
  assume "run env fs = Some (out, w')"
  from run_posts [OF this] consider "posts (trace w') = []"
    | resp where "http_Get env (arg_server env) = Inr resp"
        "posts (trace w') = [init_post (Request_URL resp)]"
    | resp ir c where "http_Get env (arg_server env) = Inr resp"
        "posts (trace w') = [init_post (Request_URL resp), final_post (Request_URL resp) ir c]"
    by blast
  then show "\<forall>(u, h, b) \<in> set (posts (trace w')).
         \<exists>resp. http_Get env (arg_server env) = Inr resp \<and> u = Request_URL resp"
  proof cases
    case 1
    then show ?thesis by simp
  next
    case 2
    then show ?thesis by (simp add: init_post_def del: Sprintf.simps)
  next
    case 3
    then show ?thesis by (simp add: init_post_def final_post_def del: Sprintf.simps)
  qed
next
  assume "run env fs = Some (Exit 0, w')"
  from run_Exit_0 [OF this] show "\<exists>resp opq token cookie fingerprint.
         http_Get env (arg_server env) = Inr resp \<and>
         posts (trace w') =
           [(Request_URL resp, request_header, Sprintf init_format [Request_URL resp]),
            (Request_URL resp, request_header, Sprintf final_format [opq, token])] \<and>
         map_option content (files w' (arg_config env)) =
           Some (''cookie='' @ cookie @ ''\<newline>servercert='' @ fingerprint @
                 ''\<newline># host='' @ Request_URL resp @ ''\<newline>'')"
    unfolding init_post_def final_post_def
    apply (elim exE conjE)
    subgoal for resp resp2 ir n c resp3 fr
      by (intro exI [of _ resp] exI [of _ "Opaque.Value (Opaque ir)"]
            exI [of _ "NetworkCookie.Value c"] exI [of _ "Cookie fr"] exI [of _ "Fingerprint fr"])
         (simp del: Sprintf.simps)
    done
qed

theorem resolved_url_used_throughout_witness:
  "(\<exists>w'. run env0 Map.empty = Some (Exit 0, w') \<and>
      http_Get env0 (arg_server env0) =
        Inr \<lparr>StatusCode = 200, Request_URL = ''https://vpn2.example.com'',
             Body = [], Body_err = None\<rparr> \<and>
      map fst (posts (trace w')) = [''https://vpn2.example.com'', ''https://vpn2.example.com''] \<and>
      map_option content (files w' (arg_config env0)) =
        Some ''cookie=sesscookie\<newline>servercert=fp789\<newline># host=https://vpn2.example.com\<newline>'')"
proof -
  let ?w = "snd (the (run env0 Map.empty))"
  have r: "run env0 Map.empty = Some (Exit 0, ?w)"
    by (simp add: run_env0)
  have g: "http_Get env0 (arg_server env0) =
        Inr \<lparr>StatusCode = 200, Request_URL = ''https://vpn2.example.com'',
             Body = [], Body_err = None\<rparr>"
    by (simp add: env0_calls)
  from resolved_url_used_throughout [of env0 Map.empty "Exit 0" ?w, THEN conjunct1] r
  have "\<forall>(u, h, b) \<in> set (posts (trace ?w)).
         \<exists>resp. http_Get env0 (arg_server env0) = Inr resp \<and> u = Request_URL resp" ..
  then have "\<forall>(u, h, b) \<in> set (posts (trace ?w)). u = ''https://vpn2.example.com''"
    unfolding g by auto
  then have "map fst (posts (trace ?w)) =
      [''https://vpn2.example.com'', ''https://vpn2.example.com'']"
    by (simp add: run_env0 del: Sprintf.simps)
  moreover have "map_option content (files ?w (arg_config env0)) =
        Some ''cookie=sesscookie\<newline>servercert=fp789\<newline># host=https://vpn2.example.com\<newline>''"
    by (simp add: run_env0 env0_calls del: Sprintf.simps)
  ultimately show ?thesis
    using r g by (intro exI [of _ ?w] conjI)
qed

text \<open>
  C4. For every opaque value and token value the body of the finalization request is the
  document below: client type \<open>auth-reply\<close>, the version and device-id lines that the init
  request has too, empty \<open>session-token\<close> and \<open>session-id\<close> elements, the opaque value,
  byte for byte, in the \<open>opaque\<close> element, and the token value, byte for byte, in an
  \<open>sso-token\<close> element inside \<open>auth\<close>. \<open>finalizationStage\<close> posts this body; in a run that
  sends two POSTs, the second carries it with the \<open>Opaque.Value\<close> of the decoded
  initialization response and the value of the cookie the login wait captured.
\<close>

theorem finalization_request_body:
  \<open>Sprintf final_format [configHash, token] =
     ''\<newline>'' @
     ''    <config-auth client="vpn" type="auth-reply" aggregate-auth-version="2">\<newline>'' @
     ''      <version who="vpn">4.7.00136</version>\<newline>'' @
     ''      <device-id>linux-64</device-id>\<newline>'' @
     ''      <session-token/>\<newline>'' @
     ''      <session-id/>\<newline>'' @
     ''      <opaque is-for="sg">'' @ configHash @ ''</opaque>\<newline>'' @
     ''      <auth>\<newline>'' @
     ''        <sso-token>'' @ token @ ''</sso-token>\<newline>'' @
     ''      </auth>\<newline>'' @
     ''      </config-auth>\<newline>'' @
     ''  '' \<and>
   (\<exists>before after. Sprintf init_format [u] = before @ version_and_device_id @ after) \<and>
   (\<exists>before after. Sprintf final_format [configHash, token] =
      before @ version_and_device_id @ after) \<and>
   (http_NewRequest env vpnServer = None \<longrightarrow>
      posts (trace (snd (finalizationStage env vpnServer token configHash w))) =
        posts (trace w) @
        [(vpnServer, request_header, Sprintf final_format [configHash, token])]) \<and>
   (run env fs = Some (out, w') \<and> length (posts (trace w')) = 2 \<longrightarrow>
      (\<exists>resp resp2 ir n c.
         http_Get env (arg_server env) = Inr resp \<and>
         client_Do env (Request_URL resp) request_header
           (Sprintf init_format [Request_URL resp]) = Inr resp2 \<and>
         Unmarshal_init env (Body resp2) = Inr ir \<and>
         (\<forall>j<n. token_cookie env (TokenCookieName ir) j = None) \<and>
         token_cookie env (TokenCookieName ir) n = Some c \<and>
         snd (snd (posts (trace w') ! 1)) =
           Sprintf final_format [Opaque.Value (Opaque ir), NetworkCookie.Value c]))\<close>
proof (intro conjI impI)
  show \<open>Sprintf final_format [configHash, token] =
     ''\<newline>'' @
     ''    <config-auth client="vpn" type="auth-reply" aggregate-auth-version="2">\<newline>'' @
     ''      <version who="vpn">4.7.00136</version>\<newline>'' @
     ''      <device-id>linux-64</device-id>\<newline>'' @
     ''      <session-token/>\<newline>'' @
     ''      <session-id/>\<newline>'' @
     ''      <opaque is-for="sg">'' @ configHash @ ''</opaque>\<newline>'' @
     ''      <auth>\<newline>'' @
     ''        <sso-token>'' @ token @ ''</sso-token>\<newline>'' @
     ''      </auth>\<newline>'' @
     ''      </config-auth>\<newline>'' @
     ''  ''\<close>
    by (rule Sprintf_final)
  show "\<exists>before after. Sprintf init_format [u] = before @ version_and_device_id @ after"
    by (rule init_has_version_and_device_id)
  show "\<exists>before after. Sprintf final_format [configHash, token] =
      before @ version_and_device_id @ after"
    by (rule final_has_version_and_device_id)
  show "posts (trace (snd (finalizationStage env vpnServer token configHash w))) =
        posts (trace w) @
        [(vpnServer, request_header, Sprintf final_format [configHash, token])]"
    if "http_NewRequest env vpnServer = None"
    using that by (simp add: finalizationStage_posts del: Sprintf.simps)
  assume a: "run env fs = Some (out, w') \<and> length (posts (trace w')) = 2"
  then have two: "length (posts (trace w')) = 2" ..
  from a have "run env fs = Some (out, w')" ..
  from run_posts [OF this] two
  show "\<exists>resp resp2 ir n c.
         http_Get env (arg_server env) = Inr resp \<and>
         client_Do env (Request_URL resp) request_header
           (Sprintf init_format [Request_URL resp]) = Inr resp2 \<and>
         Unmarshal_init env (Body resp2) = Inr ir \<and>
         (\<forall>j<n. token_cookie env (TokenCookieName ir) j = None) \<and>
         token_cookie env (TokenCookieName ir) n = Some c \<and>
         snd (snd (posts (trace w') ! 1)) =
           Sprintf final_format [Opaque.Value (Opaque ir), NetworkCookie.Value c]"
    apply (elim disjE exE conjE)
      apply simp
     apply simp
    subgoal for resp resp2 ir n c
      by (intro exI [of _ resp] exI [of _ resp2] exI [of _ ir] exI [of _ n] exI [of _ c])
         (simp add: final_post_def del: Sprintf.simps)
    done
qed

theorem finalization_request_body_witness:
  \<open>http_NewRequest env0 ''https://vpn2.example.com'' = None \<and>
   posts (trace (snd (finalizationStage env0 ''https://vpn2.example.com'' ''tok456'' ''abc123''
                        w0))) =
     [(''https://vpn2.example.com'', request_header,
       Sprintf final_format [''abc123'', ''tok456''])] \<and>
   Sprintf final_format [''abc123'', ''tok456''] =
     ''\<newline>'' @
     ''    <config-auth client="vpn" type="auth-reply" aggregate-auth-version="2">\<newline>'' @
     ''      <version who="vpn">4.7.00136</version>\<newline>'' @
     ''      <device-id>linux-64</device-id>\<newline>'' @
     ''      <session-token/>\<newline>'' @
     ''      <session-id/>\<newline>'' @
     ''      <opaque is-for="sg">abc123</opaque>\<newline>'' @
     ''      <auth>\<newline>'' @
     ''        <sso-token>tok456</sso-token>\<newline>'' @
     ''      </auth>\<newline>'' @
     ''      </config-auth>\<newline>'' @
     ''  '' \<and>
   (\<exists>w'. run env0 Map.empty = Some (Exit 0, w') \<and> length (posts (trace w')) = 2 \<and>
      snd (snd (posts (trace w') ! 1)) = Sprintf final_format [''abc123'', ''tok456''])\<close>
proof -
  let ?w = "snd (the (run env0 Map.empty))"
  note inst = finalization_request_body [of "''abc123''" "''tok456''" "''https://vpn2.example.com''"
      env0 "''https://vpn2.example.com''" w0 Map.empty "Exit 0" ?w]
  note body = inst [THEN conjunct1]
  note post = inst [THEN conjunct2, THEN conjunct2, THEN conjunct2, THEN conjunct1]
  have h: "http_NewRequest env0 ''https://vpn2.example.com'' = None"
    by (simp add: env0_calls)
  have r: "run env0 Map.empty = Some (Exit 0, ?w)" "length (posts (trace ?w)) = 2"
    "snd (snd (posts (trace ?w) ! 1)) = Sprintf final_format [''abc123'', ''tok456'']"
    by (simp_all add: run_env0 del: Sprintf.simps)
  show ?thesis
  proof (intro conjI)
    show "http_NewRequest env0 ''https://vpn2.example.com'' = None"
      by (rule h)
    from post h show "posts (trace (snd (finalizationStage env0 ''https://vpn2.example.com''
        ''tok456'' ''abc123'' w0))) =
        [(''https://vpn2.example.com'', request_header,
          Sprintf final_format [''abc123'', ''tok456''])]"
      by (simp add: w0_def del: Sprintf.simps)
    from body show \<open>Sprintf final_format [''abc123'', ''tok456''] =
       ''\<newline>'' @
       ''    <config-auth client="vpn" type="auth-reply" aggregate-auth-version="2">\<newline>'' @
       ''      <version who="vpn">4.7.00136</version>\<newline>'' @
       ''      <device-id>linux-64</device-id>\<newline>'' @
       ''      <session-token/>\<newline>'' @
       ''      <session-id/>\<newline>'' @
       ''      <opaque is-for="sg">abc123</opaque>\<newline>'' @
       ''      <auth>\<newline>'' @
       ''        <sso-token>tok456</sso-token>\<newline>'' @
       ''      </auth>\<newline>'' @
       ''      </config-auth>\<newline>'' @
       ''  ''\<close>
      by (simp del: Sprintf.simps)
    from r show "\<exists>w'. run env0 Map.empty = Some (Exit 0, w') \<and> length (posts (trace w')) = 2 \<and>
        snd (snd (posts (trace w') ! 1)) = Sprintf final_format [''abc123'', ''tok456'']"
      by (intro exI [of _ ?w] conjI)
  qed
qed


section \<open>Errors\<close>

text \<open>
  C10. The gateway client returns the bytes read from the response body whatever the
  status code is and whether or not reading the body failed: it logs no error and does
  not exit, and changing the status code and the read error of every response changes
  nothing in what it does. So a response with status 500 reaches the XML decoder like
  any other. In the initialization stage the response to the GET serves for its final
  URL only: its status code is not read, and its body is not read at all.
\<close>

theorem status_code_and_read_error_ignored:
  "(http_NewRequest env server = None \<and>
    client_Do env server request_header xmlPayload = Inr resp \<longrightarrow>
      fst (makePostReq env xmlPayload server w) = Inr (Body resp) \<and>
      error_logs (trace (snd (makePostReq env xmlPayload server w))) = error_logs (trace w)) \<and>
   makePostReq (with_post_status s e env) xmlPayload server w =
     makePostReq env xmlPayload server w \<and>
   (http_Get env url = Inr gresp \<and> http_NewRequest env (Request_URL gresp) = None \<and>
    client_Do env (Request_URL gresp) request_header
      (Sprintf init_format [Request_URL gresp]) = Inr posted \<longrightarrow>
      fst (initializationStage env url w) =
        (case Unmarshal_init env (Body posted) of
           Inl err \<Rightarrow> Inl (Exit 1)
         | Inr result \<Rightarrow> Inr (result, Request_URL gresp))) \<and>
   initializationStage (with_get_response s b e env) url w = initializationStage env url w"
proof (intro conjI impI)
  assume a: "http_NewRequest env server = None \<and>
    client_Do env server request_header xmlPayload = Inr resp"
  then have m: "makePostReq env xmlPayload server w =
     (Inr (Body resp),
      w\<lparr>trace := trace w @
        [HttpPost server request_header xmlPayload,
         LogCall LevelInfo ''successfullly received response from server'',
         LogCall LevelDebug ''received response'']\<rparr>)"
    by (intro makePostReq_ok) simp_all
  show "fst (makePostReq env xmlPayload server w) = Inr (Body resp)"
    by (simp add: m)
  show "error_logs (trace (snd (makePostReq env xmlPayload server w))) = error_logs (trace w)"
    by (simp add: m)
next
  show "makePostReq (with_post_status s e env) xmlPayload server w =
     makePostReq env xmlPayload server w"
    by (rule makePostReq_with_post_status)
next
  assume a: "http_Get env url = Inr gresp \<and> http_NewRequest env (Request_URL gresp) = None \<and>
    client_Do env (Request_URL gresp) request_header
      (Sprintf init_format [Request_URL gresp]) = Inr posted"
  then have "makePostReq env (Sprintf init_format [Request_URL gresp]) (Request_URL gresp)
      (slog LevelDebug ''configuring VPN request'' (emit (HttpGet url) w)) =
     (Inr (Body posted),
      (slog LevelDebug ''configuring VPN request'' (emit (HttpGet url) w))
       \<lparr>trace := trace (slog LevelDebug ''configuring VPN request'' (emit (HttpGet url) w)) @
        [HttpPost (Request_URL gresp) request_header (Sprintf init_format [Request_URL gresp]),
         LogCall LevelInfo ''successfullly received response from server'',
         LogCall LevelDebug ''received response'']\<rparr>)"
    by (intro makePostReq_ok) simp_all
  with a show "fst (initializationStage env url w) =
        (case Unmarshal_init env (Body posted) of
           Inl err \<Rightarrow> Inl (Exit 1)
         | Inr result \<Rightarrow> Inr (result, Request_URL gresp))"
    by (simp add: initializationStage_def Let_def del: Sprintf.simps split: sum.splits)
next
  show "initializationStage (with_get_response s b e env) url w = initializationStage env url w"
    by (rule initializationStage_with_get_response)
qed

theorem status_code_and_read_error_ignored_witness:
  "http_NewRequest env_500 ''https://vpn2.example.com'' = None \<and>
   client_Do env_500 ''https://vpn2.example.com'' request_header ''<config-auth/>'' =
     Inr \<lparr>StatusCode = 500, Request_URL = ''https://vpn2.example.com'', Body = ''<html>Inter'',
          Body_err = Some (Error ''unexpected EOF'')\<rparr> \<and>
   fst (makePostReq env_500 ''<config-auth/>'' ''https://vpn2.example.com'' w0) =
     Inr ''<html>Inter'' \<and>
   error_logs (trace (snd (makePostReq env_500 ''<config-auth/>'' ''https://vpn2.example.com''
                             w0))) = [] \<and>
   http_Get env_500 ''https://vpn.example.com'' =
     Inr \<lparr>StatusCode = 200, Request_URL = ''https://vpn2.example.com'',
          Body = [], Body_err = None\<rparr> \<and>
   fst (initializationStage env_500 ''https://vpn.example.com'' w0) =
     Inr (\<lparr>LoginURL = ''https://idp.example.com/login'', LoginFinalURL = [],
           TokenCookieName = ''ssotoken'', Opaque = \<lparr>Opaque.Value = ''abc123''\<rparr>\<rparr>,
          ''https://vpn2.example.com'')"
proof -
  let ?t = "''https://vpn2.example.com''"
  let ?r = "\<lparr>StatusCode = 500, Request_URL = ?t, Body = ''<html>Inter'',
          Body_err = Some (Error ''unexpected EOF'')\<rparr>"
  let ?g = "\<lparr>StatusCode = 200, Request_URL = ?t, Body = [], Body_err = None\<rparr>"
  note inst = status_code_and_read_error_ignored [where env = env_500 and server = ?t
      and xmlPayload = "''<config-auth/>''" and resp = ?r and w = w0
      and url = "''https://vpn.example.com''" and gresp = ?g and posted = ?r]
  note post = inst [THEN conjunct1]
  note get = inst [THEN conjunct2, THEN conjunct2, THEN conjunct1]
  have h: "http_NewRequest env_500 ?t = None \<and>
      client_Do env_500 ?t request_header ''<config-auth/>'' = Inr ?r"
    by (simp add: env_500_calls)
  have g: "http_Get env_500 ''https://vpn.example.com'' = Inr ?g \<and>
      http_NewRequest env_500 (Request_URL ?g) = None \<and>
      client_Do env_500 (Request_URL ?g) request_header
        (Sprintf init_format [Request_URL ?g]) = Inr ?r"
    by (simp add: env_500_calls del: Sprintf.simps)
  from post h have p: "fst (makePostReq env_500 ''<config-auth/>'' ?t w0) = Inr (Body ?r) \<and>
      error_logs (trace (snd (makePostReq env_500 ''<config-auth/>'' ?t w0))) =
        error_logs (trace w0)" ..
  from get g have i: "fst (initializationStage env_500 ''https://vpn.example.com'' w0) =
        (case Unmarshal_init env_500 (Body ?r) of
           Inl err \<Rightarrow> Inl (Exit 1)
         | Inr result \<Rightarrow> Inr (result, Request_URL ?g))" ..
  show ?thesis
    using h g p i by (simp add: env_500_calls w0_def del: Sprintf.simps)
qed


text \<open>
  C1 (what the code does). The error of \<open>context.Cookies()\<close> is logged and the loop goes
  on: in the run below the first read of the jar fails, the second finds the token
  cookie, and the program sends the auth-reply request, writes the file and ends with
  status 0. The errors of the four browser set-up calls are logged and \<open>main\<close> goes on as
  well: when \<open>context.NewPage()\<close> fails with a nil page, the initialization stage still
  runs (the GET and the init POST are sent) and the process then panics at \<open>page.Goto\<close>.
\<close>

theorem logged_errors_do_not_stop_main:
  "run env_cookie_error Map.empty =
     Some (Exit 0,
       \<lparr>trace =
          [LogCall LevelInfo ''Logger initialized'',
           HttpGet ''https://vpn.example.com'',
           LogCall LevelDebug ''configuring VPN request'',
           HttpPost ''https://vpn2.example.com'' request_header
             (Sprintf init_format [''https://vpn2.example.com'']),
           LogCall LevelInfo ''successfullly received response from server'',
           LogCall LevelDebug ''received response'',
           LogCall LevelDebug ''received response from server'',
           LogCall LevelInfo ''unmarshalled init response'',
           LogCall LevelInfo waiting_msg,
           PageGoto ''https://idp.example.com/login'',
           ContextCookies,
           LogCall LevelError ''could not get cookies from browser context'',
           TimeSleep 10000000,
           ContextCookies,
           LogCall LevelInfo received_cookie_msg,
           BrowserClose,
           HttpPost ''https://vpn2.example.com'' request_header
             (Sprintf final_format [''abc123'', ''tok456'']),
           LogCall LevelInfo ''successfullly received response from server'',
           LogCall LevelDebug ''received response'',
           LogCall LevelDebug ''received response from server'',
           LogCall LevelDebug ''unmarshalled final response'',
           LogCall LevelInfo received_msg,
           LogCall LevelInfo ''successfully written authentication details to file''],
        files = [''/tmp/oc.conf'' \<mapsto>
          \<lparr>content =
             ''cookie=sesscookie\<newline>servercert=fp789\<newline># host=https://vpn2.example.com\<newline>'',
           mode = perm_0600\<rparr>]\<rparr>) \<and>
   run env_no_page Map.empty =
     Some (Panic,
       \<lparr>trace =
          [LogCall LevelInfo ''Logger initialized'',
           LogCall LevelError ''could not create page'',
           HttpGet ''https://vpn.example.com'',
           LogCall LevelDebug ''configuring VPN request'',
           HttpPost ''https://vpn2.example.com'' request_header
             (Sprintf init_format [''https://vpn2.example.com'']),
           LogCall LevelInfo ''successfullly received response from server'',
           LogCall LevelDebug ''received response'',
           LogCall LevelDebug ''received response from server'',
           LogCall LevelInfo ''unmarshalled init response'',
           LogCall LevelInfo waiting_msg],
        files = Map.empty\<rparr>)"
proof (rule conjI)
  let ?t = "''https://vpn2.example.com''"
  let ?ir = "\<lparr>LoginURL = ''https://idp.example.com/login'',
              LoginFinalURL = [], TokenCookieName = ''ssotoken'',
              Opaque = \<lparr>Opaque.Value = ''abc123''\<rparr>\<rparr>"
  let ?resp = "\<lparr>StatusCode = 200, Request_URL = ?t, Body = [], Body_err = None\<rparr>"
  let ?resp2 = "\<lparr>StatusCode = 200, Request_URL = ?t, Body = ''<config-auth/>'',
                 Body_err = None\<rparr>"
  let ?fr = "\<lparr>Cookie = ''sesscookie'', Fingerprint = ''fp789''\<rparr>"
  have jar: "\<forall>j<1. token_cookie env_cookie_error (TokenCookieName ?ir) j = None"
    "token_cookie env_cookie_error (TokenCookieName ?ir) 1 = Some sso"
    by (simp_all add: token_cookie_def env_cookie_error_def sso_def)
  have ev: "setup_logs env_cookie_error = []"
    "waiting env_cookie_error 0 1 =
       [ContextCookies, LogCall LevelError ''could not get cookies from browser context'',
        TimeSleep 10000000]"
    "round_events env_cookie_error 1 = [ContextCookies]"
    "perm_0600 AND NOT (umask env_cookie_error) = perm_0600"
    by (simp_all add: setup_logs_def waiting_def round_events_def env_cookie_error_def env0_def
          Millisecond_def perm_0600_def)
  note ok = run_ok [where env = env_cookie_error and fs = Map.empty and resp = ?resp
      and posted = ?resp2 and ir = ?ir and n = 1 and c = sso and replied = ?resp2 and fr = ?fr,
      OF _ _ _ _ _ _ _ _ jar, unfolded ev]
  have calls: "fst (playwright_Run env_cookie_error)" "fst (Firefox_Launch env_cookie_error)"
    "fst (browser_NewContext env_cookie_error)" "fst (context_NewPage env_cookie_error)"
    "http_Get env_cookie_error (arg_server env_cookie_error) = Inr ?resp"
    "http_NewRequest env_cookie_error (Request_URL ?resp) = None"
    "client_Do env_cookie_error (Request_URL ?resp) request_header
       (Sprintf init_format [Request_URL ?resp]) = Inr ?resp2"
    "Unmarshal_init env_cookie_error (Body ?resp2) = Inr ?ir"
    "client_Do env_cookie_error (Request_URL ?resp) request_header
       (Sprintf final_format [Opaque.Value (Opaque ?ir), NetworkCookie.Value sso]) = Inr ?resp2"
    "Unmarshal_final env_cookie_error (Body ?resp2) = Inr ?fr"
    "os_fault env_cookie_error (arg_config env_cookie_error) = None"
    by (simp_all add: env_cookie_error_def env0_def del: Sprintf.simps)
  from ok [OF calls]
  show "run env_cookie_error Map.empty =
     Some (Exit 0,
       \<lparr>trace =
          [LogCall LevelInfo ''Logger initialized'',
           HttpGet ''https://vpn.example.com'',
           LogCall LevelDebug ''configuring VPN request'',
           HttpPost ''https://vpn2.example.com'' request_header
             (Sprintf init_format [''https://vpn2.example.com'']),
           LogCall LevelInfo ''successfullly received response from server'',
           LogCall LevelDebug ''received response'',
           LogCall LevelDebug ''received response from server'',
           LogCall LevelInfo ''unmarshalled init response'',
           LogCall LevelInfo waiting_msg,
           PageGoto ''https://idp.example.com/login'',
           ContextCookies,
           LogCall LevelError ''could not get cookies from browser context'',
           TimeSleep 10000000,
           ContextCookies,
           LogCall LevelInfo received_cookie_msg,
           BrowserClose,
           HttpPost ''https://vpn2.example.com'' request_header
             (Sprintf final_format [''abc123'', ''tok456'']),
           LogCall LevelInfo ''successfullly received response from server'',
           LogCall LevelDebug ''received response'',
           LogCall LevelDebug ''received response from server'',
           LogCall LevelDebug ''unmarshalled final response'',
           LogCall LevelInfo received_msg,
           LogCall LevelInfo ''successfully written authentication details to file''],
        files = [''/tmp/oc.conf'' \<mapsto>
          \<lparr>content =
             ''cookie=sesscookie\<newline>servercert=fp789\<newline># host=https://vpn2.example.com\<newline>'',
           mode = perm_0600\<rparr>]\<rparr>)"
    by (simp add: env_cookie_error_def env0_def sso_def del: Sprintf.simps)
next
  let ?w = "\<lparr>trace = [], files = Map.empty\<rparr>"
  let ?t = "''https://vpn2.example.com''"
  let ?ir = "\<lparr>LoginURL = ''https://idp.example.com/login'',
              LoginFinalURL = [], TokenCookieName = ''ssotoken'',
              Opaque = \<lparr>Opaque.Value = ''abc123''\<rparr>\<rparr>"
  let ?resp = "\<lparr>StatusCode = 200, Request_URL = ?t, Body = [], Body_err = None\<rparr>"
  let ?resp2 = "\<lparr>StatusCode = 200, Request_URL = ?t, Body = ''<config-auth/>'',
                 Body_err = None\<rparr>"
  have calls: "fst (playwright_Run env_no_page)" "fst (Firefox_Launch env_no_page)"
    "fst (browser_NewContext env_no_page)" "\<not> fst (context_NewPage env_no_page)"
    "http_Get env_no_page (arg_server env_no_page) = Inr ?resp"
    "http_NewRequest env_no_page (Request_URL ?resp) = None"
    "client_Do env_no_page (Request_URL ?resp) request_header
       (Sprintf init_format [Request_URL ?resp]) = Inr ?resp2"
    "Unmarshal_init env_no_page (Body ?resp2) = Inr ?ir"
    by (simp_all add: env_no_page_def env0_def del: Sprintf.simps)
  have sw: "setup_world env_no_page ?w =
      \<lparr>trace = [LogCall LevelInfo ''Logger initialized'',
                 LogCall LevelError ''could not create page''], files = Map.empty\<rparr>"
    by (rule world.equality)
       (simp_all add: trace_setup_world setup_logs_def env_no_page_def env0_def)
  have args: "arg_server env_no_page = ''https://vpn.example.com''"
    by (simp add: env_no_page_def env0_def)
  note init = initializationStage_ok [OF calls(5-8), of "setup_world env_no_page ?w"]
  show "run env_no_page Map.empty =
     Some (Panic,
       \<lparr>trace =
          [LogCall LevelInfo ''Logger initialized'',
           LogCall LevelError ''could not create page'',
           HttpGet ''https://vpn.example.com'',
           LogCall LevelDebug ''configuring VPN request'',
           HttpPost ''https://vpn2.example.com'' request_header
             (Sprintf init_format [''https://vpn2.example.com'']),
           LogCall LevelInfo ''successfullly received response from server'',
           LogCall LevelDebug ''received response'',
           LogCall LevelDebug ''received response from server'',
           LogCall LevelInfo ''unmarshalled init response'',
           LogCall LevelInfo waiting_msg],
        files = Map.empty\<rparr>)"
    unfolding run_def
    by (subst main_panic_page [OF calls(1-3) init calls(4)])
       (simp add: sw slog_def emit_def args del: Sprintf.simps)
qed

end
